theory Spec2Isabelle
  imports Complex_Main
begin

section \<open>Go values, requests, spans and the observable world\<close>

text \<open>
  A span handle as the tracing SDK hands it out: the identifiers of its span context, the
  sampled flag and validity.  \<open>trace.SpanFromContext\<close> never returns nil; for a context
  without span it returns the no-op span, whose span context is not valid.
\<close>

record Span =
  TraceID :: string
  SpanID :: string
  IsSampled :: bool
  IsValid :: bool

text \<open>The request context: the active span and the trace path added by \<open>gcp.WithTrace\<close>.\<close>

record Context =
  ctx_span :: Span
  ctx_gcp_trace :: "string option"

record Request =
  Method :: string
  RequestURI :: string
  RemoteAddr :: string
  Header :: "string \<rightharpoonup> string"
  req_ctx :: Context

text \<open>
  Values of Go's \<open>any\<close>: log arguments, JSON documents, errors and panic values.  The
  results of \<open>fmt.Sprintf\<close> and \<open>fmt.Errorf\<close> with verbs other than \<open>%s\<close> on strings
  are kept symbolic (format string and arguments); \<open>DurationSeconds d\<close> is the
  \<open>float64\<close> that \<open>d.Seconds()\<close> returns for a duration of \<open>d\<close> nanoseconds.
  \<open>RequestPtr None\<close> is a nil \<open>*http.Request\<close>, \<open>DebugStack\<close> the string of
  \<open>debug.Stack()\<close>, and the last two are the run-time errors of a failed type assertion
  and of a nil pointer dereference.
\<close>

datatype any_val =
    StringVal string
  | IntVal int
  | BoolVal bool
  | MapVal "(string \<times> any_val) list"
  | Sprintf string "any_val list"
  | Errorf string "any_val list"
  | DurationSeconds int
  | RequestPtr "Request option"
  | DebugStack
  | TypeAssertionError
  | NilPointerDereference

datatype Level = LevelDebug | LevelInfo | LevelWarn | LevelError | LevelCritical

text \<open>One call of \<open>slog.Logger.Log\<close>: the context's trace path, level, message, arguments.\<close>

record LogRecord =
  rec_trace :: "string option"
  rec_level :: Level
  rec_msg :: string
  rec_args :: "any_val list"

datatype Code = Unset | Error | Ok

datatype span_call =
    SetStatus Code string
  | RecordError any_val "(string \<times> any_val) list"
  | AddEvent string "(string \<times> any_val) list"
  | SetAttributes "(string \<times> any_val) list"
  | End

datatype body_item = Bytes string | JSONLine any_val

text \<open>
  The \<open>http.ResponseWriter\<close> of a request, as \<open>httptest.ResponseRecorder\<close> (the writer
  of the repository's tests) observes it: the first \<open>WriteHeader\<close> fixes the status code
  and snapshots the headers that go on the wire, later calls are ignored, and a \<open>Write\<close>
  before any \<open>WriteHeader\<close> implies \<open>WriteHeader(200)\<close>, after the recorder has set a
  missing \<open>Content-Type\<close> to what \<open>http.DetectContentType\<close> finds in the data.  That
  detector belongs to the standard library; the recorder carries it as \<open>sniff\<close>.
\<close>

record ResponseRecorder =
  Code :: int
  HeaderMap :: "string \<rightharpoonup> string"
  Body :: "body_item list"
  wroteHeader :: bool
  snapHeader :: "string \<rightharpoonup> string"
  sniff :: "body_item \<Rightarrow> string"

datatype event = TelemetryShutdown | LoggerClose

record LoggerConfig =
  log_ProjectID :: string
  log_ServiceName :: string
  log_ServiceVersion :: string
  log_LogName :: string
  log_EnableConsole :: bool
  log_EnableGCP :: bool
  log_Level :: Level
  log_Pretty :: bool

record Logger =
  logger_config :: LoggerConfig

text \<open>
  Everything a handler can change: the response writer, the calls made on span handles,
  the records handed to \<open>slog\<close>, the package-level logger with its \<open>sync.Once\<close>, and
  a trace of the shutdown calls that reached the collaborators.
\<close>

record world =
  rw :: ResponseRecorder
  span_calls :: "(Span \<times> span_call) list"
  slog_calls :: "LogRecord list"
  globalLogger :: "Logger option"
  once_done :: bool
  events :: "event list"

text \<open>A call returns normally or panics with a value; both leave a world behind.\<close>

datatype outcome = Return world | Panic any_val world

type_synonym Handler = "Request \<Rightarrow> world \<Rightarrow> outcome"

fun outcome_world :: "outcome \<Rightarrow> world" where
  "outcome_world (Return s) = s"
| "outcome_world (Panic v s) = s"

fun is_Panic :: "outcome \<Rightarrow> bool" where
  "is_Panic (Return s) = False"
| "is_Panic (Panic v s) = True"

section \<open>client.go: the middleware chain\<close>

record 'h MiddlewareChain =
  middlewares :: "('h \<Rightarrow> 'h) list"

definition NewChain :: "('h \<Rightarrow> 'h) list \<Rightarrow> 'h MiddlewareChain" where
  "NewChain mws = \<lparr>middlewares = mws\<rparr>"

text \<open>The loop of \<open>Then\<close>: \<open>for i := len(mc.middlewares) - 1; i >= 0; i--\<close>.\<close>

function Then_loop :: "('h \<Rightarrow> 'h) list \<Rightarrow> int \<Rightarrow> 'h \<Rightarrow> 'h" where
  "Then_loop mws i handler =
     (if i \<ge> 0 then Then_loop mws (i - 1) ((mws ! nat i) handler) else handler)"
  by pat_completeness auto
termination
  by (relation "measure (\<lambda>(mws, i, handler). nat (i + 1))") auto

definition Then :: "'h MiddlewareChain \<Rightarrow> 'h \<Rightarrow> 'h" where
  "Then mc handler = Then_loop (middlewares mc) (int (length (middlewares mc)) - 1) handler"

definition ThenFunc :: "'h MiddlewareChain \<Rightarrow> 'h \<Rightarrow> 'h" where
  "ThenFunc mc handlerFunc = Then mc handlerFunc"

definition Append :: "'h MiddlewareChain \<Rightarrow> ('h \<Rightarrow> 'h) list \<Rightarrow> 'h MiddlewareChain" where
  "Append mc added = mc\<lparr>middlewares := middlewares mc @ added\<rparr>"

text \<open>
  An instrumented decorator, as a test of the call order writes it: its own logic before
  the call of \<open>next\<close>, then \<open>next\<close>, then its own logic after the call.
\<close>

definition instrument :: "('s \<Rightarrow> 's) \<Rightarrow> ('s \<Rightarrow> 's) \<Rightarrow> ('s \<Rightarrow> 's) \<Rightarrow> ('s \<Rightarrow> 's)" where
  "instrument pre post next = (\<lambda>s. post (next (pre s)))"

definition record_call :: "string \<Rightarrow> string list \<Rightarrow> string list" where
  "record_call name calls = calls @ [name]"

section \<open>logger/logger.go\<close>

definition SpanFromContext :: "Context \<Rightarrow> Span option" where
  "SpanFromContext ctx = Some (ctx_span ctx)"

definition addTraceContext :: "Context \<Rightarrow> string \<Rightarrow> any_val list \<Rightarrow> any_val list" where
  "addTraceContext ctx projectID attrs =
     (case SpanFromContext ctx of
        None \<Rightarrow> attrs
      | Some sp \<Rightarrow>
          if \<not> IsValid sp then attrs
          else
            let traceID = TraceID sp;
                spanID = SpanID sp;
                attrs1 = attrs @
                  [StringVal ''trace_id'', StringVal traceID,
                   StringVal ''span_id'', StringVal spanID,
                   StringVal ''trace_sampled'', BoolVal (IsSampled sp)]
            in if projectID \<noteq> ''''
               then
                 let traceStr = ''projects/'' @ projectID @ ''/traces/'' @ traceID
                 in attrs1 @
                    [StringVal ''logging.googleapis.com/trace'', StringVal traceStr,
                     StringVal ''logging.googleapis.com/spanId'', StringVal spanID,
                     StringVal ''logging.googleapis.com/trace_sampled'', BoolVal (IsSampled sp)]
               else attrs1)"

definition enrichContext :: "Logger \<Rightarrow> Context \<Rightarrow> Context" where
  "enrichContext l ctx =
     (case SpanFromContext ctx of
        None \<Rightarrow> ctx
      | Some sp \<Rightarrow>
          if \<not> IsValid sp then ctx
          else if log_ProjectID (logger_config l) \<noteq> ''''
          then ctx\<lparr>ctx_gcp_trace :=
                 Some (''projects/'' @ log_ProjectID (logger_config l) @ ''/traces/'' @ TraceID sp)\<rparr>
          else ctx)"

text \<open>\<open>l.logger.Log(ctx, level, msg, args...)\<close>: the record reaches the \<open>slog\<close> logger.\<close>

definition slog_Log :: "Context \<Rightarrow> Level \<Rightarrow> string \<Rightarrow> any_val list \<Rightarrow> world \<Rightarrow> world" where
  "slog_Log ctx level msg args s =
     s\<lparr>slog_calls := slog_calls s @
        [\<lparr>rec_trace = ctx_gcp_trace ctx, rec_level = level, rec_msg = msg, rec_args = args\<rparr>]\<rparr>"

text \<open>\<open>Duration.Milliseconds\<close>: integer division of the nanoseconds, truncating to zero.\<close>

definition Milliseconds :: "int \<Rightarrow> int" where
  "Milliseconds d = (if d \<ge> 0 then d div 1000000 else - ((- d) div 1000000))"

definition LogHTTPRequest ::
  "Logger \<Rightarrow> Context \<Rightarrow> string \<Rightarrow> string \<Rightarrow> int \<Rightarrow> int \<Rightarrow> any_val list \<Rightarrow> world \<Rightarrow> world" where
  "LogHTTPRequest l ctx method path statusCode duration args s =
     (let level = LevelInfo;
          msg = ''HTTP request completed'';
          (level, msg) =
            (if statusCode \<ge> 500 then (LevelError, ''HTTP request failed'')
             else if statusCode \<ge> 400 then (LevelWarn, ''HTTP request client error'')
             else (level, msg));
          logArgs = [StringVal ''http.method'', StringVal method,
                     StringVal ''http.path'', StringVal path,
                     StringVal ''http.status_code'', IntVal statusCode,
                     StringVal ''duration_ms'', IntVal (Milliseconds duration)];
          logArgs1 = logArgs @
                    [StringVal ''httpRequest'',
                     MapVal [(''requestMethod'', StringVal method),
                             (''requestUrl'', StringVal path),
                             (''status'', IntVal statusCode),
                             (''latency'', Sprintf ''%fs'' [DurationSeconds duration])]];
          logArgs2 = logArgs1 @ args;
          logArgs3 = addTraceContext ctx (log_ProjectID (logger_config l)) logArgs2;
          ctx1 = enrichContext l ctx
      in slog_Log ctx1 level msg logArgs3 s)"

text \<open>The other context-aware log methods used by the client.\<close>

definition InfoContext :: "Logger \<Rightarrow> Context \<Rightarrow> string \<Rightarrow> any_val list \<Rightarrow> world \<Rightarrow> world" where
  "InfoContext l ctx msg args s =
     (let args1 = addTraceContext ctx (log_ProjectID (logger_config l)) args;
          ctx1 = enrichContext l ctx
      in slog_Log ctx1 LevelInfo msg args1 s)"

definition ErrorContext :: "Logger \<Rightarrow> Context \<Rightarrow> string \<Rightarrow> any_val list \<Rightarrow> world \<Rightarrow> world" where
  "ErrorContext l ctx msg args s =
     (let args1 = addTraceContext ctx (log_ProjectID (logger_config l)) args;
          ctx1 = enrichContext l ctx
      in slog_Log ctx1 LevelError msg args1 s)"

text \<open>
  Go's \<open>recover()\<close>: it returns the value of the current panic only when the goroutine is
  panicking and \<open>recover\<close> is called directly by a deferred function; in every function
  that a deferred function merely calls, and once the panic has been recovered, it
  returns nil.  Since Go 1.21 (the version the repository asks for) a panic value is
  never nil, so \<open>None\<close> is exactly "no panic seen".
\<close>

datatype frame = DeferredCall | OrdinaryCall

definition recover :: "frame \<Rightarrow> any_val option \<Rightarrow> any_val option" where
  "recover fr panicking = (case fr of DeferredCall \<Rightarrow> panicking | OrdinaryCall \<Rightarrow> None)"

definition on_span :: "Span \<Rightarrow> span_call \<Rightarrow> world \<Rightarrow> world" where
  "on_span sp c s = s\<lparr>span_calls := span_calls s @ [(sp, c)]\<rparr>"

text \<open>
  \<open>LogPanic\<close>, run in a frame \<open>fr\<close> of a goroutine whose pending panic is \<open>panicking\<close>.
\<close>

definition LogPanic :: "Logger \<Rightarrow> Context \<Rightarrow> frame \<Rightarrow> any_val option \<Rightarrow> world \<Rightarrow> outcome" where
  "LogPanic l ctx fr panicking s =
     (case recover fr panicking of
        None \<Rightarrow> Return s
      | Some r \<Rightarrow>
          let stackTrace = DebugStack;
              logArgs = [StringVal ''panic.value'', Sprintf ''%v'' [r],
                         StringVal ''panic.stack_trace'', stackTrace];
              logArgs1 = addTraceContext ctx (log_ProjectID (logger_config l)) logArgs;
              ctx1 = enrichContext l ctx;
              s1 = (case SpanFromContext ctx1 of
                      None \<Rightarrow> s
                    | Some sp \<Rightarrow>
                        on_span sp
                          (RecordError (Errorf ''panic: %v'' [r])
                             [(''panic.value'', Sprintf ''%v'' [r]),
                              (''panic.stack_trace'', stackTrace)])
                          (on_span sp (SetStatus Error ''panic recovered'') s));
              s2 = slog_Log ctx1 LevelCritical ''Panic recovered'' logArgs1 s1
          in Panic r s2)"

definition zero_LoggerConfig :: LoggerConfig where
  "zero_LoggerConfig =
     \<lparr>log_ProjectID = [], log_ServiceName = [], log_ServiceVersion = [],
      log_LogName = [], log_EnableConsole = False, log_EnableGCP = False,
      log_Level = LevelInfo, log_Pretty = False\<rparr>"

definition Global :: "world \<Rightarrow> Logger" where
  "Global s =
     (case globalLogger s of
        None \<Rightarrow> \<lparr>logger_config = zero_LoggerConfig\<rparr>
      | Some l \<Rightarrow> l)"

definition log_SetDefaults :: "LoggerConfig \<Rightarrow> LoggerConfig" where
  "log_SetDefaults c =
     (let c1 = (if log_ServiceName c = [] then c\<lparr>log_ServiceName := ''default-service''\<rparr> else c);
          c2 = (if log_ServiceVersion c1 = [] then c1\<lparr>log_ServiceVersion := ''1.0.0''\<rparr> else c1)
      in if log_LogName c2 = [] then c2\<lparr>log_LogName := log_ServiceName c2\<rparr> else c2)"

definition log_Validate :: "LoggerConfig \<Rightarrow> any_val option" where
  "log_Validate c =
     (if log_EnableGCP c \<and> log_ProjectID c = []
      then Some (Errorf ''ProjectID is required when GCP logging is enabled'' [])
      else None)"

definition NewLogger :: "LoggerConfig \<Rightarrow> any_val + Logger" where
  "NewLogger config =
     (let config1 = log_SetDefaults config
      in case log_Validate config1 of
           Some err \<Rightarrow> Inl (Errorf ''invalid config: %w'' [err])
         | None \<Rightarrow> Inr \<lparr>logger_config = config1\<rparr>)"

text \<open>\<open>logger.InitGlobal\<close>: the body runs under \<open>once.Do\<close>.\<close>

definition log_InitGlobal :: "LoggerConfig \<Rightarrow> world \<Rightarrow> any_val option \<times> world" where
  "log_InitGlobal config s =
     (if once_done s then (None, s)
      else
        case NewLogger config of
          Inl err \<Rightarrow> (Some err, s\<lparr>globalLogger := None, once_done := True\<rparr>)
        | Inr l \<Rightarrow> (None, s\<lparr>globalLogger := Some l, once_done := True\<rparr>))"

text \<open>
  \<open>Close\<close> has nothing to release and returns nil; the event records that it was called.
\<close>

definition Close :: "Logger \<Rightarrow> world \<Rightarrow> any_val option \<times> world" where
  "Close l s = (None, s\<lparr>events := events s @ [LoggerClose]\<rparr>)"

section \<open>The response writer\<close>

text \<open>What the detector answers for data that is text, as all data written below is.\<close>

definition detect_text :: "body_item \<Rightarrow> string" where
  "detect_text b = ''text/plain; charset=utf-8''"

definition NewRecorder :: ResponseRecorder where
  "NewRecorder =
     \<lparr>Code = 200, HeaderMap = Map.empty, Body = [], wroteHeader = False,
      snapHeader = Map.empty, sniff = detect_text\<rparr>"

definition Header_Set :: "string \<Rightarrow> string \<Rightarrow> world \<Rightarrow> world" where
  "Header_Set k v s = s\<lparr>rw := (rw s)\<lparr>HeaderMap := (HeaderMap (rw s))(k \<mapsto> v)\<rparr>\<rparr>"

definition Header_Del :: "string \<Rightarrow> world \<Rightarrow> world" where
  "Header_Del k s = s\<lparr>rw := (rw s)\<lparr>HeaderMap := (HeaderMap (rw s))(k := None)\<rparr>\<rparr>"

definition Header_Get :: "(string \<rightharpoonup> string) \<Rightarrow> string \<Rightarrow> string" where
  "Header_Get h k = (case h k of None \<Rightarrow> [] | Some v \<Rightarrow> v)"

text \<open>
  \<open>WriteHeader\<close> is called below with 200, 204 and 500 only, so the recorder's panic on a
  status code outside 100..999 never arises.
\<close>

definition WriteHeader :: "int \<Rightarrow> world \<Rightarrow> world" where
  "WriteHeader code s =
     (if wroteHeader (rw s) then s
      else s\<lparr>rw := (rw s)\<lparr>Code := code, wroteHeader := True,
                            snapHeader := HeaderMap (rw s)\<rparr>\<rparr>)"

text \<open>
  The recorder's \<open>writeHeader\<close>, which \<open>Write\<close> calls first: nothing when the header is
  written; otherwise the content type is sniffed from the data unless \<open>Content-Type\<close> or
  \<open>Transfer-Encoding\<close> is set, and \<open>WriteHeader(200)\<close> follows.
\<close>

definition writeHeader :: "body_item \<Rightarrow> world \<Rightarrow> world" where
  "writeHeader b s =
     (if wroteHeader (rw s) then s
      else
        let hasType = (HeaderMap (rw s) ''Content-Type'' \<noteq> None);
            hasTE = (Header_Get (HeaderMap (rw s)) ''Transfer-Encoding'' \<noteq> []);
            s1 = (if \<not> hasType \<and> \<not> hasTE
                  then Header_Set ''Content-Type'' (sniff (rw s) b) s else s)
        in WriteHeader 200 s1)"

definition Write :: "body_item \<Rightarrow> world \<Rightarrow> world" where
  "Write b s =
     (let s1 = writeHeader b s
      in s1\<lparr>rw := (rw s1)\<lparr>Body := Body (rw s1) @ [b]\<rparr>\<rparr>)"

text \<open>\<open>http.Error\<close> of the standard library.\<close>

definition http_Error :: "string \<Rightarrow> int \<Rightarrow> world \<Rightarrow> world" where
  "http_Error msg code s =
     (let s1 = Header_Del ''Content-Length'' s;
          s2 = Header_Set ''Content-Type'' ''text/plain; charset=utf-8'' s1;
          s3 = Header_Set ''X-Content-Type-Options'' ''nosniff'' s2;
          s4 = WriteHeader code s3
      in Write (Bytes (msg @ [CHR 0x0A])) s4)"

section \<open>The middleware units\<close>

definition CORS :: "Handler \<Rightarrow> Handler" where
  "CORS next r s =
     (let s0 = (case SpanFromContext (req_ctx r) of
                  None \<Rightarrow> s
                | Some sp \<Rightarrow>
                    on_span sp
                      (AddEvent ''cors.processing''
                         [(''cors.origin'', StringVal (Header_Get (Header r) ''Origin'')),
                          (''cors.method'', StringVal (Method r))]) s);
          s1 = Header_Set ''Access-Control-Allow-Origin'' ''*'' s0;
          s2 = Header_Set ''Access-Control-Allow-Methods'' ''GET, POST, PUT, DELETE, OPTIONS'' s1;
          s3 = Header_Set ''Access-Control-Allow-Headers''
                 ''Accept, Content-Type, Content-Length, Accept-Encoding, X-CSRF-Token, Authorization, X-User-Email, X-User-Groups'' s2;
          s4 = Header_Set ''Access-Control-Allow-Credentials'' ''true'' s3;
          s5 = Header_Set ''Access-Control-Max-Age'' ''86400'' s4
      in if Method r = ''OPTIONS''
         then
           let s6 = Header_Set ''Content-Type'' ''text/plain'' s5;
               s7 = WriteHeader 204 s6;
               s8 = (case SpanFromContext (req_ctx r) of
                       None \<Rightarrow> s7
                     | Some sp \<Rightarrow> on_span sp (SetAttributes [(''cors.preflight'', BoolVal True)]) s7)
           in Return s8
         else next r s5)"

definition errorResponse :: "any_val \<Rightarrow> any_val" where
  "errorResponse err =
     MapVal [(''error'', StringVal ''Internal server error''),
             (''code'', IntVal 500),
             (''details'', MapVal [(''panic'', Sprintf ''%v'' [err])])]"

text \<open>
  \<open>Recovery\<close>: the call of \<open>next\<close>, then the deferred function.  The recorder's \<open>Write\<close>
  cannot fail, so the encoder returns no error.
\<close>

definition Recovery :: "Handler \<Rightarrow> Handler" where
  "Recovery next r s =
     (let out = next r s;
          panicking = (case out of Return _ \<Rightarrow> None | Panic v _ \<Rightarrow> Some v);
          s0 = outcome_world out
      in case recover DeferredCall panicking of
           None \<Rightarrow> out
         | Some err \<Rightarrow>
             let s1 = (case SpanFromContext (req_ctx r) of
                         None \<Rightarrow> s0
                       | Some sp \<Rightarrow>
                           on_span sp
                             (RecordError (Errorf ''panic: %v'' [err])
                                [(''panic.value'', Sprintf ''%v'' [err])])
                             (on_span sp (SetStatus Error ''panic recovered'') s0))
             in case LogPanic (Global s1) (req_ctx r) OrdinaryCall None s1 of
                  Panic p s2 \<Rightarrow> Panic p s2
                | Return s2 \<Rightarrow>
                    let s3 = Header_Set ''Content-Type'' ''application/json'' s2;
                        s4 = WriteHeader 500 s3;
                        s5 = Write (JSONLine (errorResponse err)) s4
                    in Return s5)"

text \<open>
  helpers: \<open>RecoverMiddleware\<close>.  In its deferred function the name \<open>r\<close> is the recovered
  value, and \<open>r.(*http.Request)\<close> is a type assertion on that value.
\<close>

definition RecoverMiddleware :: "Logger \<Rightarrow> Handler \<Rightarrow> Handler" where
  "RecoverMiddleware lg next req s =
     (let out = next req s;
          panicking = (case out of Return _ \<Rightarrow> None | Panic v _ \<Rightarrow> Some v);
          s0 = outcome_world out
      in case recover DeferredCall panicking of
           None \<Rightarrow> out
         | Some r \<Rightarrow>
             (case r of
                RequestPtr (Some q) \<Rightarrow>
                  let ctx = req_ctx q;
                      spn = SpanFromContext ctx
                  in (case LogPanic lg ctx OrdinaryCall None s0 of
                        Panic p s1 \<Rightarrow> Panic p s1
                      | Return s1 \<Rightarrow>
                          let s2 = (case spn of None \<Rightarrow> s1 | Some sp \<Rightarrow> on_span sp End s1)
                          in Return (http_Error ''Internal Server Error'' 500 s2))
              | RequestPtr None \<Rightarrow> Panic NilPointerDereference s0
              | _ \<Rightarrow> Panic TypeAssertionError s0))"

section \<open>Concrete requests and handlers\<close>

definition noopSpan :: Span where
  "noopSpan = \<lparr>TraceID = ''00000000000000000000000000000000'', SpanID = ''0000000000000000'',
               IsSampled = False, IsValid = False\<rparr>"

definition Background :: Context where
  "Background = \<lparr>ctx_span = noopSpan, ctx_gcp_trace = None\<rparr>"

definition NewRequest :: "string \<Rightarrow> string \<Rightarrow> Request" where
  "NewRequest method target =
     \<lparr>Method = method, RequestURI = target, RemoteAddr = ''192.0.2.1:1234'',
      Header = Map.empty, req_ctx = Background\<rparr>"

definition world0 :: world where
  "world0 = \<lparr>rw = NewRecorder, span_calls = [], slog_calls = [], globalLogger = None,
             once_done = False, events = []\<rparr>"

definition test_logger :: Logger where
  "test_logger = \<lparr>logger_config = zero_LoggerConfig\<lparr>log_ProjectID := ''test-project'',
                                                     log_ServiceName := ''test''\<rparr>\<rparr>"

text \<open>\<open>panic("test panic")\<close>, the handler of the repository's recovery test.\<close>

definition panicking_handler :: Handler where
  "panicking_handler r s = Panic (StringVal ''test panic'') s"

text \<open>A decorator that answers early: \<open>w.WriteHeader(http.StatusOK); next.ServeHTTP(w, r)\<close>.\<close>

definition early_writer :: "Handler \<Rightarrow> Handler" where
  "early_writer next r s = next r (WriteHeader 200 s)"

text \<open>\<open>w.WriteHeader(http.StatusOK); panic("test panic")\<close>.\<close>

definition late_panicking_handler :: Handler where
  "late_panicking_handler r s = Panic (StringVal ''test panic'') (WriteHeader 200 s)"

section \<open>Observations used in the statements\<close>

definition cors_headers_set :: "(string \<rightharpoonup> string) \<Rightarrow> bool" where
  "cors_headers_set h =
     (h ''Access-Control-Allow-Origin'' = Some ''*''
      \<and> h ''Access-Control-Allow-Methods'' = Some ''GET, POST, PUT, DELETE, OPTIONS''
      \<and> h ''Access-Control-Allow-Headers'' =
          Some ''Accept, Content-Type, Content-Length, Accept-Encoding, X-CSRF-Token, Authorization, X-User-Email, X-User-Groups''
      \<and> h ''Access-Control-Allow-Credentials'' = Some ''true''
      \<and> h ''Access-Control-Max-Age'' = Some ''86400'')"

text \<open>The field of a decoded JSON object.\<close>

fun json_field :: "any_val \<Rightarrow> string \<Rightarrow> any_val option" where
  "json_field (MapVal kvs) k = map_of kvs k"
| "json_field v k = None"

text \<open>The world in which \<open>CORS\<close> decides between the preflight answer and \<open>next\<close>.\<close>

definition cors_prepared :: "Request \<Rightarrow> world \<Rightarrow> world" where
  "cors_prepared r s =
     Header_Set ''Access-Control-Max-Age'' ''86400''
       (Header_Set ''Access-Control-Allow-Credentials'' ''true''
         (Header_Set ''Access-Control-Allow-Headers''
            ''Accept, Content-Type, Content-Length, Accept-Encoding, X-CSRF-Token, Authorization, X-User-Email, X-User-Groups''
           (Header_Set ''Access-Control-Allow-Methods'' ''GET, POST, PUT, DELETE, OPTIONS''
             (Header_Set ''Access-Control-Allow-Origin'' ''*''
               (on_span (ctx_span (req_ctx r))
                  (AddEvent ''cors.processing''
                     [(''cors.origin'', StringVal (Header_Get (Header r) ''Origin'')),
                      (''cors.method'', StringVal (Method r))]) s)))))"

section \<open>telemetry: configuration, provider and the package-level provider\<close>

text \<open>
  \<open>float64\<close> as far as the comparisons of the configuration need it: the finite values
  are rationals, and the comparisons with NaN are false as in IEEE 754.
\<close>

datatype float64 = Finite rat | PosInf | NegInf | NaN

fun f64_less :: "float64 \<Rightarrow> float64 \<Rightarrow> bool" where
  "f64_less NaN y = False"
| "f64_less x NaN = False"
| "f64_less (Finite a) (Finite b) = (a < b)"
| "f64_less NegInf NegInf = False"
| "f64_less NegInf y = True"
| "f64_less x NegInf = False"
| "f64_less PosInf y = False"
| "f64_less x PosInf = True"

fun f64_eq :: "float64 \<Rightarrow> float64 \<Rightarrow> bool" where
  "f64_eq NaN y = False"
| "f64_eq x NaN = False"
| "f64_eq x y = (x = y)"

definition f64_le :: "float64 \<Rightarrow> float64 \<Rightarrow> bool" where
  "f64_le x y = (f64_less x y \<or> f64_eq x y)"

definition f64_ge :: "float64 \<Rightarrow> float64 \<Rightarrow> bool" where
  "f64_ge x y = f64_le y x"

text \<open>The \<open>float64\<close> of the literal \<open>0.1\<close>: the double nearest to one tenth.\<close>

definition f64_0_1 :: float64 where
  "f64_0_1 = Finite (3602879701896397 / 36028797018963968)"

definition Second :: int where
  "Second = 1000000000"

record Config =
  ServiceName :: string
  ServiceVersion :: string
  Environment :: string
  ProjectID :: string
  EnableTracing :: bool
  EnableMetrics :: bool
  TraceRatio :: float64
  EnableDebug :: bool
  ExportTimeout :: int
  BatchTimeout :: int
  MaxBatchSize :: int
  MaxQueueSize :: int
  Attributes :: "(string \<times> string) list option"

text \<open>
  \<open>SetDefaults\<close>, one function for each of its \<open>if\<close> statements, in the order of the
  source; \<open>Getenv\<close> is \<open>os.Getenv\<close>, and a nil map is \<open>None\<close>.
\<close>

definition default_ServiceName :: "Config \<Rightarrow> Config" where
  "default_ServiceName c =
     (if ServiceName c = [] then c\<lparr>ServiceName := ''default-service''\<rparr> else c)"

definition default_ServiceVersion :: "Config \<Rightarrow> Config" where
  "default_ServiceVersion c =
     (if ServiceVersion c = [] then c\<lparr>ServiceVersion := ''1.0.0''\<rparr> else c)"

definition default_Environment :: "(string \<Rightarrow> string) \<Rightarrow> Config \<Rightarrow> Config" where
  "default_Environment Getenv c =
     (if Environment c = []
      then (let e = c\<lparr>Environment := Getenv ''ENVIRONMENT''\<rparr>
            in if Environment e = [] then e\<lparr>Environment := ''production''\<rparr> else e)
      else c)"

definition default_TraceRatio :: "Config \<Rightarrow> Config" where
  "default_TraceRatio c =
     (if f64_eq (TraceRatio c) (Finite 0) then c\<lparr>TraceRatio := f64_0_1\<rparr> else c)"

definition default_ProjectID :: "(string \<Rightarrow> string) \<Rightarrow> Config \<Rightarrow> Config" where
  "default_ProjectID Getenv c =
     (if ProjectID c = []
      then (let e = c\<lparr>ProjectID := Getenv ''GOOGLE_CLOUD_PROJECT''\<rparr>
            in if ProjectID e = [] then e\<lparr>ProjectID := Getenv ''GCP_PROJECT''\<rparr> else e)
      else c)"

definition default_ExportTimeout :: "Config \<Rightarrow> Config" where
  "default_ExportTimeout c =
     (if ExportTimeout c = 0 then c\<lparr>ExportTimeout := 30 * Second\<rparr> else c)"

definition default_BatchTimeout :: "Config \<Rightarrow> Config" where
  "default_BatchTimeout c =
     (if BatchTimeout c = 0 then c\<lparr>BatchTimeout := 5 * Second\<rparr> else c)"

definition default_MaxBatchSize :: "Config \<Rightarrow> Config" where
  "default_MaxBatchSize c =
     (if MaxBatchSize c = 0 then c\<lparr>MaxBatchSize := 512\<rparr> else c)"

definition default_MaxQueueSize :: "Config \<Rightarrow> Config" where
  "default_MaxQueueSize c =
     (if MaxQueueSize c = 0 then c\<lparr>MaxQueueSize := 2048\<rparr> else c)"

definition default_Attributes :: "Config \<Rightarrow> Config" where
  "default_Attributes c =
     (if Attributes c = None then c\<lparr>Attributes := Some []\<rparr> else c)"

definition SetDefaults :: "(string \<Rightarrow> string) \<Rightarrow> Config \<Rightarrow> Config" where
  "SetDefaults Getenv c =
     (let c1 = default_ServiceName c;
          c2 = default_ServiceVersion c1;
          c3 = default_Environment Getenv c2;
          c4 = default_TraceRatio c3;
          c5 = default_ProjectID Getenv c4;
          c6 = default_ExportTimeout c5;
          c7 = default_BatchTimeout c6;
          c8 = default_MaxBatchSize c7;
          c9 = default_MaxQueueSize c8
      in default_Attributes c9)"

definition Validate :: "Config \<Rightarrow> any_val option" where
  "Validate c =
     (if ServiceName c = [] then Some (Errorf ''ServiceName is required'' [])
      else if EnableTracing c \<and> ProjectID c = []
      then Some (Errorf ''ProjectID is required when tracing is enabled'' [])
      else if f64_less (TraceRatio c) (Finite 0) \<or> f64_less (Finite 1) (TraceRatio c)
      then Some (Errorf ''TraceRatio must be between 0.0 and 1.0'' [])
      else if MaxBatchSize c \<le> 0 then Some (Errorf ''MaxBatchSize must be positive'' [])
      else if MaxQueueSize c \<le> 0 then Some (Errorf ''MaxQueueSize must be positive'' [])
      else None)"

datatype Sampler = AlwaysSample | NeverSample | TraceIDRatioBased float64

type_synonym Resource = "(string \<times> string) list"

text \<open>
  The tracer provider of the SDK with the options \<open>setupTracing\<close> gives it; the exporter
  is kept as its project and timeout.
\<close>

record TracerProvider =
  tp_resource :: Resource
  tp_sampler :: Sampler
  tp_exporter_project :: string
  tp_exporter_timeout :: int
  tp_BatchTimeout :: int
  tp_MaxExportBatchSize :: int
  tp_MaxQueueSize :: int

text \<open>A tracer: its name and the provider it comes from (\<open>None\<close>: \<open>otel.Tracer\<close>).\<close>

record Tracer =
  tracer_name :: string
  tracer_provider :: "TracerProvider option"

record Provider =
  tracerProvider :: "TracerProvider option"
  provider_config :: Config
  tracer :: "Tracer option"

text \<open>
  The collaborators of provider construction: the environment, the GCP resource
  detector, \<open>resource.Merge\<close>, the constructor of the Cloud Trace exporter (its error,
  from project and timeout) and the \<open>Shutdown\<close> of the SDK's tracer provider.
\<close>

record Externals =
  Getenv :: "string \<Rightarrow> string"
  gcp_Detect :: "any_val + Resource"
  resource_Merge :: "Resource \<Rightarrow> Resource \<Rightarrow> any_val + Resource"
  gcptrace_New :: "string \<Rightarrow> int \<Rightarrow> any_val option"
  sdk_Shutdown :: "TracerProvider \<Rightarrow> any_val option"

text \<open>The package state: \<open>globalProvider\<close> and what \<open>otel\<close> holds globally.\<close>

record telemetry_state =
  globalProvider :: "Provider option"
  otel_TracerProvider :: "TracerProvider option"
  otel_Propagators :: "string list"

text \<open>
  \<open>createResource\<close>; the custom attributes follow in the order of the list (Go ranges
  over the map in no fixed order), and the debug print to stderr is left out.
\<close>

definition createResource :: "Externals \<Rightarrow> Provider \<Rightarrow> any_val + Resource" where
  "createResource ext p =
     (let baseAttrs = [(''service.name'', ServiceName (provider_config p)),
                       (''service.version'', ServiceVersion (provider_config p)),
                       (''deployment.environment'', Environment (provider_config p))];
          baseRes = baseAttrs @ (case Attributes (provider_config p) of None \<Rightarrow> [] | Some kvs \<Rightarrow> kvs)
      in case gcp_Detect ext of
           Inl err \<Rightarrow> Inr baseRes
         | Inr gcpRes \<Rightarrow> resource_Merge ext baseRes gcpRes)"

definition setupTracing ::
  "Externals \<Rightarrow> Provider \<Rightarrow> telemetry_state \<Rightarrow> any_val option \<times> Provider \<times> telemetry_state" where
  "setupTracing ext p st =
     (case createResource ext p of
        Inl err \<Rightarrow> (Some (Errorf ''failed to create resource: %w'' [err]), p, st)
      | Inr res \<Rightarrow>
          (case gcptrace_New ext (ProjectID (provider_config p)) (ExportTimeout (provider_config p)) of
             Some err \<Rightarrow>
               (Some (Errorf ''failed to create Google Cloud Trace exporter: %w'' [err]), p, st)
           | None \<Rightarrow>
               let sampler =
                     (if f64_ge (TraceRatio (provider_config p)) (Finite 1) then AlwaysSample
                      else if f64_le (TraceRatio (provider_config p)) (Finite 0) then NeverSample
                      else TraceIDRatioBased (TraceRatio (provider_config p)));
                   tp = \<lparr>tp_resource = res, tp_sampler = sampler,
                         tp_exporter_project = ProjectID (provider_config p),
                         tp_exporter_timeout = ExportTimeout (provider_config p),
                         tp_BatchTimeout = BatchTimeout (provider_config p),
                         tp_MaxExportBatchSize = MaxBatchSize (provider_config p),
                         tp_MaxQueueSize = MaxQueueSize (provider_config p)\<rparr>
               in (None, p\<lparr>tracerProvider := Some tp\<rparr>, st\<lparr>otel_TracerProvider := Some tp\<rparr>)))"

definition setupPropagation :: "telemetry_state \<Rightarrow> telemetry_state" where
  "setupPropagation st = st\<lparr>otel_Propagators := [''TraceContext'', ''Baggage'']\<rparr>"

definition GetTracer :: "Provider \<Rightarrow> string \<Rightarrow> Tracer" where
  "GetTracer p name =
     (case tracerProvider p of
        Some tp \<Rightarrow> \<lparr>tracer_name = name, tracer_provider = Some tp\<rparr>
      | None \<Rightarrow> \<lparr>tracer_name = name, tracer_provider = None\<rparr>)"

definition NewProvider ::
  "Externals \<Rightarrow> Config \<Rightarrow> telemetry_state \<Rightarrow> (any_val + Provider) \<times> telemetry_state" where
  "NewProvider ext config st =
     (let config1 = SetDefaults (Getenv ext) config
      in case Validate config1 of
           Some err \<Rightarrow> (Inl (Errorf ''invalid telemetry config: %w'' [err]), st)
         | None \<Rightarrow>
             let provider = \<lparr>tracerProvider = None, provider_config = config1, tracer = None\<rparr>;
                 (err, provider1, st1) =
                   (if EnableTracing config1 then setupTracing ext provider st
                    else (None, provider, st))
             in case err of
                  Some e \<Rightarrow> (Inl (Errorf ''failed to setup tracing: %w'' [e]), st1)
                | None \<Rightarrow>
                    let st2 = setupPropagation st1;
                        provider2 = provider1\<lparr>tracer := Some (GetTracer provider1 (ServiceName config1))\<rparr>
                    in (Inr provider2, st2))"

text \<open>\<open>telemetry.InitGlobal\<close> and \<open>telemetry.Global\<close>.\<close>

definition InitGlobal ::
  "Externals \<Rightarrow> Config \<Rightarrow> telemetry_state \<Rightarrow> any_val option \<times> telemetry_state" where
  "InitGlobal ext config st =
     (case NewProvider ext config st of
        (Inl err, st1) \<Rightarrow> (Some err, st1)
      | (Inr provider, st1) \<Rightarrow> (None, st1\<lparr>globalProvider := Some provider\<rparr>))"

definition telemetry_Global :: "telemetry_state \<Rightarrow> Provider option" where
  "telemetry_Global st = globalProvider st"

text \<open>
  \<open>Provider.Shutdown\<close>; the event records that the call reached the SDK's tracer provider.
\<close>

definition Provider_Shutdown :: "Externals \<Rightarrow> Provider \<Rightarrow> world \<Rightarrow> any_val option \<times> world" where
  "Provider_Shutdown ext p s =
     (case tracerProvider p of
        Some tp \<Rightarrow> (sdk_Shutdown ext tp, s\<lparr>events := events s @ [TelemetryShutdown]\<rparr>)
      | None \<Rightarrow> (None, s))"

section \<open>client.go: the client and its shutdown\<close>

record Client =
  client_logger :: Logger
  client_telemetry :: "Provider option"

text \<open>The last step of \<open>Client.Shutdown\<close>, under the comment "Shutdown logger".\<close>

definition Shutdown_logger :: "Client \<Rightarrow> world \<Rightarrow> any_val option \<times> world" where
  "Shutdown_logger c s =
     (case Close (client_logger c) s of
        (Some err, s1) \<Rightarrow> (Some (Errorf ''failed to close logger: %w'' [err]), s1)
      | (None, s1) \<Rightarrow> (None, s1))"

definition Client_Shutdown :: "Externals \<Rightarrow> Client \<Rightarrow> Context \<Rightarrow> world \<Rightarrow> any_val option \<times> world" where
  "Client_Shutdown ext c ctx s =
     (let s1 = InfoContext (client_logger c) ctx ''Shutting down middleware client'' [] s
      in case client_telemetry c of
           Some p \<Rightarrow>
             (case Provider_Shutdown ext p s1 of
                (Some err, s2) \<Rightarrow>
                  let s3 = ErrorContext (client_logger c) ctx ''Failed to shutdown telemetry''
                             [StringVal ''error'', err] s2
                  in (Some (Errorf ''failed to shutdown telemetry: %w'' [err]), s3)
              | (None, s2) \<Rightarrow> Shutdown_logger c s2)
         | None \<Rightarrow> Shutdown_logger c s1)"

section \<open>Concrete configurations and collaborators\<close>

definition no_env :: "string \<Rightarrow> string" where
  "no_env name = []"

definition merge_append :: "Resource \<Rightarrow> Resource \<Rightarrow> any_val + Resource" where
  "merge_append a b = Inr (a @ b)"

definition exporter_ok :: "string \<Rightarrow> int \<Rightarrow> any_val option" where
  "exporter_ok project timeout = None"

definition shutdown_ok :: "TracerProvider \<Rightarrow> any_val option" where
  "shutdown_ok tp = None"

definition shutdown_fails :: "TracerProvider \<Rightarrow> any_val option" where
  "shutdown_fails tp = Some (Errorf ''context deadline exceeded'' [])"

text \<open>No environment variables, no GCP metadata, an exporter that can be built.\<close>

definition ext0 :: Externals where
  "ext0 = \<lparr>Getenv = no_env, gcp_Detect = Inl (Errorf ''not on GCP'' []),
           resource_Merge = merge_append, gcptrace_New = exporter_ok,
           sdk_Shutdown = shutdown_ok\<rparr>"

definition ext_flush_fails :: Externals where
  "ext_flush_fails = ext0\<lparr>sdk_Shutdown := shutdown_fails\<rparr>"

definition tstate0 :: telemetry_state where
  "tstate0 = \<lparr>globalProvider = None, otel_TracerProvider = None, otel_Propagators = []\<rparr>"

text \<open>The zero value of \<open>Config\<close> with service name and project of the tests.\<close>

definition test_config :: Config where
  "test_config =
     \<lparr>ServiceName = ''test-service'', ServiceVersion = [], Environment = [],
      ProjectID = ''test-project'', EnableTracing = False, EnableMetrics = False,
      TraceRatio = Finite 0, EnableDebug = False, ExportTimeout = 0, BatchTimeout = 0,
      MaxBatchSize = 0, MaxQueueSize = 0, Attributes = None\<rparr>"

definition test_tracerProvider :: TracerProvider where
  "test_tracerProvider =
     \<lparr>tp_resource = [], tp_sampler = AlwaysSample, tp_exporter_project = ''test-project'',
      tp_exporter_timeout = 30 * Second, tp_BatchTimeout = 5 * Second,
      tp_MaxExportBatchSize = 512, tp_MaxQueueSize = 2048\<rparr>"

definition test_client :: Client where
  "test_client =
     \<lparr>client_logger = test_logger,
      client_telemetry =
        Some \<lparr>tracerProvider = Some test_tracerProvider, provider_config = test_config,
              tracer = None\<rparr>\<rparr>"

definition GetProjectID :: "Provider \<Rightarrow> string" where
  "GetProjectID p = ProjectID (provider_config p)"

definition GetGlobalProjectID :: "telemetry_state \<Rightarrow> string" where
  "GetGlobalProjectID st =
     (case globalProvider st of
        Some p \<Rightarrow> GetProjectID p
      | None \<Rightarrow> [])"

text \<open>Configurations of the tests: tracing switched on, ratio one, another project.\<close>

definition tracing_config :: Config where
  "tracing_config = test_config\<lparr>EnableTracing := True\<rparr>"

definition always_config :: Config where
  "always_config = test_config\<lparr>EnableTracing := True, TraceRatio := Finite 1\<rparr>"

definition untraced_config :: Config where
  "untraced_config = test_config\<lparr>TraceRatio := Finite 1\<rparr>"

definition other_config :: Config where
  "other_config = test_config\<lparr>ProjectID := ''test-project-123''\<rparr>"

definition half_config :: Config where
  "half_config = test_config\<lparr>TraceRatio := Finite (1 / 2)\<rparr>"

text \<open>A ratio that is not a number, with batch and queue size set.\<close>

definition nan_config :: Config where
  "nan_config = test_config\<lparr>TraceRatio := NaN, MaxBatchSize := 512, MaxQueueSize := 2048\<rparr>"

definition after_first_init :: telemetry_state where
  "after_first_init = snd (InitGlobal ext0 test_config tstate0)"

definition after_second_init :: telemetry_state where
  "after_second_init = snd (InitGlobal ext0 other_config after_first_init)"

section \<open>The chain composes in declaration order\<close>

lemma Then_loop_foldr:
  "i < int (length mws) \<Longrightarrow>
   Then_loop mws i h = foldr (\<lambda>m acc. m acc) (take (nat (i + 1)) mws) h"
proof (induction mws i h rule: Then_loop.induct)
  case (1 mws i handler)
  show ?case
  proof (cases "i \<ge> 0")
    case False
    then show ?thesis by simp
  next
    case True
    with "1.prems" have lt: "nat i < length mws" by linarith
    from True have eq: "nat (i + 1) = Suc (nat i)" by linarith
    from True have eq': "nat (i - 1 + 1) = nat i" by simp
    have "Then_loop mws i handler = Then_loop mws (i - 1) ((mws ! nat i) handler)"
      using True by simp
    also have "\<dots> = foldr (\<lambda>m acc. m acc) (take (nat i) mws) ((mws ! nat i) handler)"
      using "1.IH" [OF True] "1.prems" eq' by simp
    also have "\<dots> = foldr (\<lambda>m acc. m acc) (take (nat (i + 1)) mws) handler"
      using lt by (simp add: eq take_Suc_conv_app_nth)
    finally show ?thesis .
  qed
qed

lemma Then_foldr: "Then mc h = foldr (\<lambda>m acc. m acc) (middlewares mc) h"
proof -
  let ?mws = "middlewares mc"
  have "int (length ?mws) - 1 < int (length ?mws)" by simp
  from Then_loop_foldr [OF this]
  show ?thesis by (simp add: Then_def)
qed

lemma middlewares_NewChain_Append:
  "middlewares (Append (NewChain xs) ys) = xs @ ys"
  by (simp add: Append_def NewChain_def)

lemma Then_instrument_hooks:
  "Then (NewChain (map (\<lambda>p. instrument (fst p) (snd p)) ps)) h s =
   foldr snd ps (h (fold fst ps s))"
proof -
  have "foldr (\<lambda>m acc. m acc) (map (\<lambda>p. instrument (fst p) (snd p)) ps) h s =
        foldr snd ps (h (fold fst ps s))" for s
    by (induction ps arbitrary: s) (simp_all add: instrument_def)
  then show ?thesis by (simp add: Then_foldr NewChain_def)
qed

text \<open>
  C1.  For decorators \<open>A\<close> then \<open>B\<close>, however the chain is built (\<open>NewChain\<close> with both,
  \<open>NewChain\<close> with \<open>A\<close> and \<open>Append\<close> of \<open>B\<close>, or two \<open>Append\<close>s to the empty chain), and
  every terminal handler \<open>h\<close>, the handler that \<open>Then\<close> and \<open>ThenFunc\<close> return is
  \<open>A (B h)\<close>, the fold of the decorator list from its end.  With instrumented decorators
  the run is: logic of \<open>A\<close> before the call, logic of \<open>B\<close> before the call, the terminal
  handler, logic of \<open>B\<close> after the call, logic of \<open>A\<close> after the call; decorators and a
  handler that record their names into a shared log leave the log in exactly that order.
\<close>

theorem C1_chain_onion_order:
  fixes A B :: "'h \<Rightarrow> 'h" and preA postA preB postB h' :: "'s \<Rightarrow> 's"
  shows "Then (NewChain [A, B]) h = A (B h)
       \<and> Then (Append (NewChain [A]) [B]) h = A (B h)
       \<and> Then (Append (Append (NewChain []) [A]) [B]) h = A (B h)
       \<and> ThenFunc (Append (NewChain [A]) [B]) h = A (B h)
       \<and> Then (Append (NewChain xs) ys) h = foldr (\<lambda>m acc. m acc) (xs @ ys) h
       \<and> Then (Append (NewChain [instrument preA postA]) [instrument preB postB]) h' s
           = postA (postB (h' (preB (preA s))))
       \<and> Then (Append (NewChain [instrument (record_call ''A-pre'') (record_call ''A-post'')])
                 [instrument (record_call ''B-pre'') (record_call ''B-post'')])
              (record_call ''handler'') calls
           = calls @ [''A-pre'', ''B-pre'', ''handler'', ''B-post'', ''A-post'']"
  by (simp add: Then_foldr ThenFunc_def Append_def NewChain_def instrument_def
      record_call_def)

section \<open>The level of the HTTP log helper\<close>

lemma LogHTTPRequest_slog:
  "slog_calls (LogHTTPRequest l ctx method path statusCode duration args s) =
   slog_calls s @
   [\<lparr>rec_trace = ctx_gcp_trace (enrichContext l ctx),
     rec_level = (if statusCode \<ge> 500 then LevelError
                  else if statusCode \<ge> 400 then LevelWarn else LevelInfo),
     rec_msg = (if statusCode \<ge> 500 then ''HTTP request failed''
                else if statusCode \<ge> 400 then ''HTTP request client error''
                else ''HTTP request completed''),
     rec_args = addTraceContext ctx (log_ProjectID (logger_config l))
       ([StringVal ''http.method'', StringVal method,
         StringVal ''http.path'', StringVal path,
         StringVal ''http.status_code'', IntVal statusCode,
         StringVal ''duration_ms'', IntVal (Milliseconds duration),
         StringVal ''httpRequest'',
         MapVal [(''requestMethod'', StringVal method),
                 (''requestUrl'', StringVal path),
                 (''status'', IntVal statusCode),
                 (''latency'', Sprintf ''%fs'' [DurationSeconds duration])]] @ args)\<rparr>]"
  by (simp add: LogHTTPRequest_def slog_Log_def Let_def)

text \<open>
  C7.  \<open>LogHTTPRequest\<close> hands exactly one record to the logger, and its level is chosen
  by the status code alone: Error for \<open>s \<ge> 500\<close>, Warn for \<open>400 \<le> s < 500\<close>, Info for
  every other status code.
\<close>

theorem C7_LogHTTPRequest_level_by_status:
  "\<exists>r. slog_calls (LogHTTPRequest l ctx method path s duration args w) = slog_calls w @ [r]
     \<and> (s \<ge> 500 \<longrightarrow> rec_level r = LevelError)
     \<and> (400 \<le> s \<and> s < 500 \<longrightarrow> rec_level r = LevelWarn)
     \<and> (s < 400 \<longrightarrow> rec_level r = LevelInfo)"
  by (simp add: LogHTTPRequest_slog)

theorem C7_boundary_values:
  "(\<exists>r. slog_calls (LogHTTPRequest test_logger Background ''GET'' ''/test'' 399 0 [] world0) = [r]
        \<and> rec_level r = LevelInfo)
 \<and> (\<exists>r. slog_calls (LogHTTPRequest test_logger Background ''GET'' ''/test'' 400 0 [] world0) = [r]
        \<and> rec_level r = LevelWarn)
 \<and> (\<exists>r. slog_calls (LogHTTPRequest test_logger Background ''GET'' ''/test'' 499 0 [] world0) = [r]
        \<and> rec_level r = LevelWarn)
 \<and> (\<exists>r. slog_calls (LogHTTPRequest test_logger Background ''GET'' ''/test'' 500 0 [] world0) = [r]
        \<and> rec_level r = LevelError)"
  using C7_LogHTTPRequest_level_by_status [of test_logger Background "''GET''" "''/test''" 399 0 "[]" world0]
        C7_LogHTTPRequest_level_by_status [of test_logger Background "''GET''" "''/test''" 400 0 "[]" world0]
        C7_LogHTTPRequest_level_by_status [of test_logger Background "''GET''" "''/test''" 499 0 "[]" world0]
        C7_LogHTTPRequest_level_by_status [of test_logger Background "''GET''" "''/test''" 500 0 "[]" world0]
  by (simp add: world0_def)

section \<open>Panics at the recovery boundary\<close>

lemma LogPanic_ordinary: "LogPanic l ctx OrdinaryCall p s = Return s"
  by (simp add: LogPanic_def recover_def)

lemma Recovery_Return: "next r s = Return s' \<Longrightarrow> Recovery next r s = Return s'"
  by (simp add: Recovery_def recover_def Let_def)

lemma Recovery_Panic:
  "next r s = Panic err s' \<Longrightarrow>
   Recovery next r s =
     Return (Write (JSONLine (errorResponse err))
       (WriteHeader 500
         (Header_Set ''Content-Type'' ''application/json''
           (on_span (ctx_span (req_ctx r))
              (RecordError (Errorf ''panic: %v'' [err]) [(''panic.value'', Sprintf ''%v'' [err])])
              (on_span (ctx_span (req_ctx r)) (SetStatus Error ''panic recovered'') s')))))"
  by (simp add: Recovery_def recover_def Let_def LogPanic_ordinary SpanFromContext_def)

lemma rw_on_span [simp]: "rw (on_span sp c s) = rw s"
  by (simp add: on_span_def)

lemma HeaderMap_Header_Set [simp]:
  "HeaderMap (rw (Header_Set k v s)) = (HeaderMap (rw s))(k \<mapsto> v)"
  by (simp add: Header_Set_def)

lemma rest_Header_Set [simp]:
  "Code (rw (Header_Set k v s)) = Code (rw s)"
  "Body (rw (Header_Set k v s)) = Body (rw s)"
  "wroteHeader (rw (Header_Set k v s)) = wroteHeader (rw s)"
  "snapHeader (rw (Header_Set k v s)) = snapHeader (rw s)"
  by (simp_all add: Header_Set_def)

lemma WriteHeader_fresh:
  "\<not> wroteHeader (rw s) \<Longrightarrow>
   Code (rw (WriteHeader c s)) = c \<and> wroteHeader (rw (WriteHeader c s))
   \<and> snapHeader (rw (WriteHeader c s)) = HeaderMap (rw s)"
  by (simp add: WriteHeader_def)

lemma WriteHeader_keeps [simp]:
  "HeaderMap (rw (WriteHeader c s)) = HeaderMap (rw s)"
  "Body (rw (WriteHeader c s)) = Body (rw s)"
  by (simp_all add: WriteHeader_def)

lemma slog_on_span [simp]: "slog_calls (on_span sp c s) = slog_calls s"
  by (simp add: on_span_def)

lemma slog_Header_Set [simp]: "slog_calls (Header_Set k v s) = slog_calls s"
  by (simp add: Header_Set_def)

lemma slog_WriteHeader [simp]: "slog_calls (WriteHeader c s) = slog_calls s"
  by (simp add: WriteHeader_def)

lemma writeHeader_written [simp]: "wroteHeader (rw s) \<Longrightarrow> writeHeader b s = s"
  by (simp add: writeHeader_def)

lemma wroteHeader_WriteHeader [simp]: "wroteHeader (rw (WriteHeader c s))"
  by (simp add: WriteHeader_def)

lemma slog_Write [simp]: "slog_calls (Write b s) = slog_calls s"
  by (simp add: Write_def writeHeader_def Let_def)

lemma span_calls_Header_Set [simp]: "span_calls (Header_Set k v s) = span_calls s"
  by (simp add: Header_Set_def)

lemma span_calls_WriteHeader [simp]: "span_calls (WriteHeader c s) = span_calls s"
  by (simp add: WriteHeader_def)

lemma span_calls_Write [simp]: "span_calls (Write b s) = span_calls s"
  by (simp add: Write_def writeHeader_def Let_def)

text \<open>
  Where \<open>Recovery\<close> stands in a chain: the decorators declared before it wrap it, and it
  wraps the handler composed of the decorators declared after it.
\<close>

lemma Recovery_in_chain:
  "Then (NewChain (before @ Recovery # after)) h
     = Then (NewChain before) (Recovery (Then (NewChain after) h))"
  by (simp add: Then_foldr NewChain_def)

text \<open>
  C2 (amended).  No panic leaves \<open>Recovery\<close>: whatever the wrapped handler does, the
  call returns.  When the wrapped handler panics before anything has been written to the
  response (no header written, empty body), the response has status 500, its body is
  one JSON document whose field \<open>code\<close> is the number 500, and \<open>Content-Type\<close> is
  \<open>application/json\<close>, in the header map and in the headers sent with the status.
  When the handler panics after the header has been written, the status stays the one
  it wrote.
\<close>

theorem C2_Recovery_500_when_unwritten:
  "(\<exists>s''. Recovery next r s = Return s'')
 \<and> (next r s = Panic err s' \<and> \<not> wroteHeader (rw s') \<and> Body (rw s') = [] \<longrightarrow>
      (\<exists>s''. Recovery next r s = Return s''
         \<and> Code (rw s'') = 500
         \<and> Body (rw s'') = [JSONLine (errorResponse err)]
         \<and> json_field (errorResponse err) ''code'' = Some (IntVal 500)
         \<and> HeaderMap (rw s'') ''Content-Type'' = Some ''application/json''
         \<and> snapHeader (rw s'') ''Content-Type'' = Some ''application/json''))
 \<and> (next r s = Panic err s' \<and> wroteHeader (rw s') \<longrightarrow>
      (\<exists>s''. Recovery next r s = Return s'' \<and> Code (rw s'') = Code (rw s')))"
proof -
  have 1: "\<exists>s''. Recovery next r s = Return s''"
    by (cases "next r s") (simp_all add: Recovery_Return Recovery_Panic)
  have 2: "\<exists>s''. Recovery next r s = Return s''
         \<and> Code (rw s'') = 500
         \<and> Body (rw s'') = [JSONLine (errorResponse err)]
         \<and> json_field (errorResponse err) ''code'' = Some (IntVal 500)
         \<and> HeaderMap (rw s'') ''Content-Type'' = Some ''application/json''
         \<and> snapHeader (rw s'') ''Content-Type'' = Some ''application/json''"
    if "next r s = Panic err s' \<and> \<not> wroteHeader (rw s') \<and> Body (rw s') = []"
    using that
    by (simp add: Recovery_Panic Write_def WriteHeader_def Header_Set_def Let_def
        errorResponse_def)
  have 3: "\<exists>s''. Recovery next r s = Return s'' \<and> Code (rw s'') = Code (rw s')"
    if "next r s = Panic err s' \<and> wroteHeader (rw s')"
    using that
    by (simp add: Recovery_Panic Write_def WriteHeader_def Header_Set_def Let_def)
  from 1 2 3 show ?thesis by blast
qed

text \<open>C2, at the handler of the repository's recovery test.\<close>

theorem C2_test_panic_gives_500:
  "is_Panic (panicking_handler (NewRequest ''GET'' ''/test'') world0)
 \<and> (\<exists>s''. Recovery panicking_handler (NewRequest ''GET'' ''/test'') world0 = Return s''
        \<and> Code (rw s'') = 500
        \<and> Body (rw s'') = [JSONLine (errorResponse (StringVal ''test panic''))]
        \<and> json_field (errorResponse (StringVal ''test panic'')) ''code'' = Some (IntVal 500)
        \<and> HeaderMap (rw s'') ''Content-Type'' = Some ''application/json''
        \<and> snapHeader (rw s'') ''Content-Type'' = Some ''application/json'')"
  using C2_Recovery_500_when_unwritten [of panicking_handler "NewRequest ''GET'' ''/test''" world0
      "StringVal ''test panic''" world0]
  by (simp add: panicking_handler_def world0_def NewRecorder_def)

text \<open>
  C2 as stated fails for a handler that writes its status and then panics: the
  \<open>WriteHeader(500)\<close> of \<open>Recovery\<close> comes too late and the observed status stays 200,
  directly under \<open>Recovery\<close> and in the chain \<open>Recovery\<close>, \<open>CORS\<close>.
\<close>

theorem C2_status_200_after_late_panic:
  "is_Panic (late_panicking_handler (NewRequest ''GET'' ''/test'') world0)
 \<and> \<not> is_Panic (Recovery late_panicking_handler (NewRequest ''GET'' ''/test'') world0)
 \<and> Code (rw (outcome_world (Recovery late_panicking_handler (NewRequest ''GET'' ''/test'') world0))) = 200
 \<and> Code (rw (outcome_world
      (Then (NewChain [Recovery, CORS]) late_panicking_handler (NewRequest ''GET'' ''/test'') world0))) = 200"
  by (simp add: Then_foldr NewChain_def Recovery_Panic late_panicking_handler_def
      CORS_def NewRequest_def Let_def Write_def WriteHeader_def Header_Set_def
      world0_def NewRecorder_def SpanFromContext_def)

lemma Recovery_adds_no_log:
  "slog_calls (outcome_world (Recovery next r s)) = slog_calls (outcome_world (next r s))"
  by (cases "next r s") (simp_all add: Recovery_Return Recovery_Panic)


lemma ctx_span_enrichContext [simp]: "ctx_span (enrichContext l ctx) = ctx_span ctx"
  by (simp add: enrichContext_def SpanFromContext_def)

lemma LogPanic_deferred:
  "LogPanic l ctx DeferredCall (Some v) s =
     Panic v
       (slog_Log (enrichContext l ctx) LevelCritical ''Panic recovered''
          (addTraceContext ctx (log_ProjectID (logger_config l))
             [StringVal ''panic.value'', Sprintf ''%v'' [v],
              StringVal ''panic.stack_trace'', DebugStack])
          (on_span (ctx_span ctx)
             (RecordError (Errorf ''panic: %v'' [v])
                [(''panic.value'', Sprintf ''%v'' [v]), (''panic.stack_trace'', DebugStack)])
             (on_span (ctx_span ctx) (SetStatus Error ''panic recovered'') s)))"
  by (simp add: LogPanic_def recover_def Let_def SpanFromContext_def)

text \<open>
  C6.  At the handler of the repository's recovery test (\<open>panic("test panic")\<close>, a fresh
  recorder, no logger initialised) \<open>Recovery\<close> recovers the panic, marks the span of the
  request as failed and records the error on it, but hands no record at all to the
  logger: inside the deferred function \<open>LogPanic\<close> is an ordinary call, its own
  \<open>recover()\<close> returns nil and it returns at once.  The same helper run as the deferred
  function itself logs one record at Critical level.
\<close>

theorem C6_Recovery_logs_nothing:
  "is_Panic (panicking_handler (NewRequest ''GET'' ''/test'') world0)
 \<and> Recovery panicking_handler (NewRequest ''GET'' ''/test'') world0
     = Return (outcome_world (Recovery panicking_handler (NewRequest ''GET'' ''/test'') world0))
 \<and> slog_calls (outcome_world (Recovery panicking_handler (NewRequest ''GET'' ''/test'') world0)) = []
 \<and> span_calls (outcome_world (Recovery panicking_handler (NewRequest ''GET'' ''/test'') world0))
     = [(noopSpan, SetStatus Error ''panic recovered''),
        (noopSpan, RecordError (Errorf ''panic: %v'' [StringVal ''test panic''])
                     [(''panic.value'', Sprintf ''%v'' [StringVal ''test panic''])])]
 \<and> map rec_level (slog_calls (outcome_world
       (LogPanic (Global world0) Background DeferredCall (Some (StringVal ''test panic'')) world0)))
     = [LevelCritical]"
  by (simp add: Recovery_Panic LogPanic_deferred panicking_handler_def NewRequest_def
      Background_def world0_def slog_Log_def on_span_def)

section \<open>The recovery block of the helpers package\<close>

text \<open>
  C10.  When the wrapped handler panics with a value that is not a \<open>*http.Request\<close>, the
  deferred function of \<open>RecoverMiddleware\<close> panics itself with the run-time error of the
  failed type assertion; the world is the one the handler left, so no 500 response has
  been written, and the panic leaves the middleware.
\<close>

theorem C10_RecoverMiddleware_type_assertion:
  "next req s = Panic v s' \<and> (\<forall>q. v \<noteq> RequestPtr q) \<longrightarrow>
   RecoverMiddleware lg next req s = Panic TypeAssertionError s'"
  by (cases v) (simp_all add: RecoverMiddleware_def recover_def Let_def)

text \<open>C10, at \<open>panic("test panic")\<close> on a fresh recorder.\<close>

theorem C10_string_panic_escapes:
  "panicking_handler (NewRequest ''GET'' ''/test'') world0 = Panic (StringVal ''test panic'') world0
 \<and> (\<forall>q. StringVal ''test panic'' \<noteq> RequestPtr q)
 \<and> RecoverMiddleware test_logger panicking_handler (NewRequest ''GET'' ''/test'') world0
     = Panic TypeAssertionError world0
 \<and> Code (rw world0) = 200 \<and> Body (rw world0) = [] \<and> \<not> wroteHeader (rw world0)"
  using C10_RecoverMiddleware_type_assertion [of panicking_handler "NewRequest ''GET'' ''/test''" world0
      "StringVal ''test panic''" world0 test_logger]
  by (simp add: panicking_handler_def world0_def NewRecorder_def)

section \<open>CORS\<close>

lemma cors_headers_set_Header_Sets:
  "cors_headers_set (HeaderMap (rw
     (Header_Set ''Access-Control-Max-Age'' ''86400''
       (Header_Set ''Access-Control-Allow-Credentials'' ''true''
         (Header_Set ''Access-Control-Allow-Headers''
            ''Accept, Content-Type, Content-Length, Accept-Encoding, X-CSRF-Token, Authorization, X-User-Email, X-User-Groups''
           (Header_Set ''Access-Control-Allow-Methods'' ''GET, POST, PUT, DELETE, OPTIONS''
             (Header_Set ''Access-Control-Allow-Origin'' ''*'' s)))))))"
  by (simp add: cors_headers_set_def Header_Set_def)

lemma cors_headers_set_Content_Type:
  "cors_headers_set (m(''Content-Type'' \<mapsto> v)) = cors_headers_set m"
  by (simp add: cors_headers_set_def)

lemma CORS_unfold:
  "CORS next r s =
     (if Method r = ''OPTIONS''
      then Return (on_span (ctx_span (req_ctx r)) (SetAttributes [(''cors.preflight'', BoolVal True)])
             (WriteHeader 204 (Header_Set ''Content-Type'' ''text/plain'' (cors_prepared r s))))
      else next r (cors_prepared r s))"
  unfolding CORS_def cors_prepared_def Let_def SpanFromContext_def option.case
  by (rule refl)

lemma cors_prepared_props:
  "cors_headers_set (HeaderMap (rw (cors_prepared r s)))"
  "Code (rw (cors_prepared r s)) = Code (rw s)"
  "Body (rw (cors_prepared r s)) = Body (rw s)"
  "wroteHeader (rw (cors_prepared r s)) = wroteHeader (rw s)"
  unfolding cors_prepared_def
  by (rule cors_headers_set_Header_Sets) simp_all




section \<open>Telemetry configuration: defaults before validation\<close>

lemmas default_steps_defs =
  default_ServiceName_def default_ServiceVersion_def default_Environment_def
  default_TraceRatio_def default_ProjectID_def default_ExportTimeout_def
  default_BatchTimeout_def default_MaxBatchSize_def default_MaxQueueSize_def
  default_Attributes_def

lemma default_steps_ServiceName [simp]:
  "ServiceName (default_ServiceName c) \<noteq> []"
  "ServiceName (default_ServiceVersion c) = ServiceName c"
  "ServiceName (default_Environment g c) = ServiceName c"
  "ServiceName (default_TraceRatio c) = ServiceName c"
  "ServiceName (default_ProjectID g c) = ServiceName c"
  "ServiceName (default_ExportTimeout c) = ServiceName c"
  "ServiceName (default_BatchTimeout c) = ServiceName c"
  "ServiceName (default_MaxBatchSize c) = ServiceName c"
  "ServiceName (default_MaxQueueSize c) = ServiceName c"
  "ServiceName (default_Attributes c) = ServiceName c"
  by (simp_all add: default_ServiceName_def default_ServiceVersion_def default_Environment_def
      default_TraceRatio_def default_ProjectID_def default_ExportTimeout_def
      default_BatchTimeout_def default_MaxBatchSize_def default_MaxQueueSize_def
      default_Attributes_def Let_def)

lemma default_steps_TraceRatio [simp]:
  "TraceRatio (default_ServiceName c) = TraceRatio c"
  "TraceRatio (default_ServiceVersion c) = TraceRatio c"
  "TraceRatio (default_Environment g c) = TraceRatio c"
  "TraceRatio (default_TraceRatio c) = (if f64_eq (TraceRatio c) (Finite 0) then f64_0_1 else TraceRatio c)"
  "TraceRatio (default_ProjectID g c) = TraceRatio c"
  "TraceRatio (default_ExportTimeout c) = TraceRatio c"
  "TraceRatio (default_BatchTimeout c) = TraceRatio c"
  "TraceRatio (default_MaxBatchSize c) = TraceRatio c"
  "TraceRatio (default_MaxQueueSize c) = TraceRatio c"
  "TraceRatio (default_Attributes c) = TraceRatio c"
  by (simp_all add: default_ServiceName_def default_ServiceVersion_def default_Environment_def
      default_TraceRatio_def default_ProjectID_def default_ExportTimeout_def
      default_BatchTimeout_def default_MaxBatchSize_def default_MaxQueueSize_def
      default_Attributes_def Let_def)

lemma default_steps_MaxBatchSize [simp]:
  "MaxBatchSize (default_ServiceName c) = MaxBatchSize c"
  "MaxBatchSize (default_ServiceVersion c) = MaxBatchSize c"
  "MaxBatchSize (default_Environment g c) = MaxBatchSize c"
  "MaxBatchSize (default_TraceRatio c) = MaxBatchSize c"
  "MaxBatchSize (default_ProjectID g c) = MaxBatchSize c"
  "MaxBatchSize (default_ExportTimeout c) = MaxBatchSize c"
  "MaxBatchSize (default_BatchTimeout c) = MaxBatchSize c"
  "MaxBatchSize (default_MaxBatchSize c) = (if MaxBatchSize c = 0 then 512 else MaxBatchSize c)"
  "MaxBatchSize (default_MaxQueueSize c) = MaxBatchSize c"
  "MaxBatchSize (default_Attributes c) = MaxBatchSize c"
  by (simp_all add: default_ServiceName_def default_ServiceVersion_def default_Environment_def
      default_TraceRatio_def default_ProjectID_def default_ExportTimeout_def
      default_BatchTimeout_def default_MaxBatchSize_def default_MaxQueueSize_def
      default_Attributes_def Let_def)

lemma default_steps_MaxQueueSize [simp]:
  "MaxQueueSize (default_ServiceName c) = MaxQueueSize c"
  "MaxQueueSize (default_ServiceVersion c) = MaxQueueSize c"
  "MaxQueueSize (default_Environment g c) = MaxQueueSize c"
  "MaxQueueSize (default_TraceRatio c) = MaxQueueSize c"
  "MaxQueueSize (default_ProjectID g c) = MaxQueueSize c"
  "MaxQueueSize (default_ExportTimeout c) = MaxQueueSize c"
  "MaxQueueSize (default_BatchTimeout c) = MaxQueueSize c"
  "MaxQueueSize (default_MaxBatchSize c) = MaxQueueSize c"
  "MaxQueueSize (default_MaxQueueSize c) = (if MaxQueueSize c = 0 then 2048 else MaxQueueSize c)"
  "MaxQueueSize (default_Attributes c) = MaxQueueSize c"
  by (simp_all add: default_ServiceName_def default_ServiceVersion_def default_Environment_def
      default_TraceRatio_def default_ProjectID_def default_ExportTimeout_def
      default_BatchTimeout_def default_MaxBatchSize_def default_MaxQueueSize_def
      default_Attributes_def Let_def)

lemma default_steps_EnableTracing [simp]:
  "EnableTracing (default_ServiceName c) = EnableTracing c"
  "EnableTracing (default_ServiceVersion c) = EnableTracing c"
  "EnableTracing (default_Environment g c) = EnableTracing c"
  "EnableTracing (default_TraceRatio c) = EnableTracing c"
  "EnableTracing (default_ProjectID g c) = EnableTracing c"
  "EnableTracing (default_ExportTimeout c) = EnableTracing c"
  "EnableTracing (default_BatchTimeout c) = EnableTracing c"
  "EnableTracing (default_MaxBatchSize c) = EnableTracing c"
  "EnableTracing (default_MaxQueueSize c) = EnableTracing c"
  "EnableTracing (default_Attributes c) = EnableTracing c"
  by (simp_all add: default_ServiceName_def default_ServiceVersion_def default_Environment_def
      default_TraceRatio_def default_ProjectID_def default_ExportTimeout_def
      default_BatchTimeout_def default_MaxBatchSize_def default_MaxQueueSize_def
      default_Attributes_def Let_def)

lemma SetDefaults_fields:
  "ServiceName (SetDefaults g c) \<noteq> []"
  "TraceRatio (SetDefaults g c) = (if f64_eq (TraceRatio c) (Finite 0) then f64_0_1 else TraceRatio c)"
  "MaxBatchSize (SetDefaults g c) = (if MaxBatchSize c = 0 then 512 else MaxBatchSize c)"
  "MaxQueueSize (SetDefaults g c) = (if MaxQueueSize c = 0 then 2048 else MaxQueueSize c)"
  "EnableTracing (SetDefaults g c) = EnableTracing c"
  by (simp_all add: SetDefaults_def Let_def)

lemma f64_less_0_cases: "f64_less x (Finite 0) \<Longrightarrow> \<not> f64_eq x (Finite 0)"
  by (cases x) simp_all

lemma f64_gt_1_cases: "f64_less (Finite 1) x \<Longrightarrow> \<not> f64_eq x (Finite 0)"
  by (cases x) simp_all

lemma Validate_rejects:
  "f64_less (TraceRatio c) (Finite 0) \<or> f64_less (Finite 1) (TraceRatio c)
     \<or> MaxBatchSize c \<le> 0 \<or> MaxQueueSize c \<le> 0 \<Longrightarrow> Validate c \<noteq> None"
  by (auto simp add: Validate_def)

lemma NewProvider_invalid:
  "Validate (SetDefaults (Getenv ext) config) = Some err \<Longrightarrow>
   NewProvider ext config st = (Inl (Errorf ''invalid telemetry config: %w'' [err]), st)"
  by (simp add: NewProvider_def Let_def)

lemma NewProvider_cases [consumes 0, case_names invalid untraced setup_failed traced]:
  fixes ext config st
  defines "c' \<equiv> SetDefaults (Getenv ext) config"
  defines "p0 \<equiv> \<lparr>tracerProvider = None, provider_config = c', tracer = None\<rparr>"
  obtains err where "Validate c' = Some err"
      "NewProvider ext config st = (Inl (Errorf ''invalid telemetry config: %w'' [err]), st)"
  | "Validate c' = None" "\<not> EnableTracing config"
      "NewProvider ext config st
         = (Inr (p0\<lparr>tracer := Some (GetTracer p0 (ServiceName c'))\<rparr>), setupPropagation st)"
  | e p1 st1 where "Validate c' = None" "EnableTracing config"
      "setupTracing ext p0 st = (Some e, p1, st1)"
      "NewProvider ext config st = (Inl (Errorf ''failed to setup tracing: %w'' [e]), st1)"
  | p1 st1 where "Validate c' = None" "EnableTracing config"
      "setupTracing ext p0 st = (None, p1, st1)"
      "NewProvider ext config st
         = (Inr (p1\<lparr>tracer := Some (GetTracer p1 (ServiceName c'))\<rparr>), setupPropagation st1)"
proof (cases "Validate c'")
  case (Some err)
  then have "NewProvider ext config st = (Inl (Errorf ''invalid telemetry config: %w'' [err]), st)"
    by (simp add: NewProvider_def Let_def c'_def)
  with Some that(1) show ?thesis by blast
next
  case None
  show ?thesis
  proof (cases "EnableTracing config")
    case False
    then have "\<not> EnableTracing c'" by (simp add: c'_def SetDefaults_fields)
    with None have "NewProvider ext config st
         = (Inr (p0\<lparr>tracer := Some (GetTracer p0 (ServiceName c'))\<rparr>), setupPropagation st)"
      by (simp add: NewProvider_def Let_def c'_def [symmetric] p0_def [symmetric])
    with None False that(2) show ?thesis by blast
  next
    case True
    then have en: "EnableTracing c'" by (simp add: c'_def SetDefaults_fields)
    obtain err p1 st1 where st: "setupTracing ext p0 st = (err, p1, st1)"
      by (cases "setupTracing ext p0 st") auto
    show ?thesis
    proof (cases err)
      case (Some e)
      with None en st have "NewProvider ext config st
          = (Inl (Errorf ''failed to setup tracing: %w'' [e]), st1)"
        by (simp add: NewProvider_def Let_def c'_def [symmetric] p0_def [symmetric])
      with None True st Some that(3) show ?thesis by blast
    next
      case e: None
      with None en st have "NewProvider ext config st
         = (Inr (p1\<lparr>tracer := Some (GetTracer p1 (ServiceName c'))\<rparr>), setupPropagation st1)"
        by (simp add: NewProvider_def Let_def c'_def [symmetric] p0_def [symmetric])
      with None True st e that(4) show ?thesis by blast
    qed
  qed
qed

lemma setupTracing_cases [consumes 0, case_names failed ok]:
  obtains e where "setupTracing ext p st = (Some e, p, st)"
  | tp where "setupTracing ext p st
        = (None, p\<lparr>tracerProvider := Some tp\<rparr>, st\<lparr>otel_TracerProvider := Some tp\<rparr>)"
      "tp_sampler tp =
          (if f64_ge (TraceRatio (provider_config p)) (Finite 1) then AlwaysSample
           else if f64_le (TraceRatio (provider_config p)) (Finite 0) then NeverSample
           else TraceIDRatioBased (TraceRatio (provider_config p)))"
      "tp_MaxExportBatchSize tp = MaxBatchSize (provider_config p)"
      "tp_MaxQueueSize tp = MaxQueueSize (provider_config p)"
proof (cases "createResource ext p")
  case (Inl err)
  then have "setupTracing ext p st = (Some (Errorf ''failed to create resource: %w'' [err]), p, st)"
    by (simp add: setupTracing_def)
  with that(1) show ?thesis by blast
next
  case (Inr res)
  show ?thesis
  proof (cases "gcptrace_New ext (ProjectID (provider_config p)) (ExportTimeout (provider_config p))")
    case (Some err)
    with Inr have "setupTracing ext p st
        = (Some (Errorf ''failed to create Google Cloud Trace exporter: %w'' [err]), p, st)"
      by (simp add: setupTracing_def)
    with that(1) show ?thesis by blast
  next
    case None
    define tp where "tp =
       \<lparr>tp_resource = res,
        tp_sampler =
          (if f64_ge (TraceRatio (provider_config p)) (Finite 1) then AlwaysSample
           else if f64_le (TraceRatio (provider_config p)) (Finite 0) then NeverSample
           else TraceIDRatioBased (TraceRatio (provider_config p))),
        tp_exporter_project = ProjectID (provider_config p),
        tp_exporter_timeout = ExportTimeout (provider_config p),
        tp_BatchTimeout = BatchTimeout (provider_config p),
        tp_MaxExportBatchSize = MaxBatchSize (provider_config p),
        tp_MaxQueueSize = MaxQueueSize (provider_config p)\<rparr>"
    from Inr None have 1: "setupTracing ext p st
        = (None, p\<lparr>tracerProvider := Some tp\<rparr>, st\<lparr>otel_TracerProvider := Some tp\<rparr>)"
      by (simp add: setupTracing_def Let_def tp_def)
    have 2: "tp_sampler tp =
          (if f64_ge (TraceRatio (provider_config p)) (Finite 1) then AlwaysSample
           else if f64_le (TraceRatio (provider_config p)) (Finite 0) then NeverSample
           else TraceIDRatioBased (TraceRatio (provider_config p)))"
      "tp_MaxExportBatchSize tp = MaxBatchSize (provider_config p)"
      "tp_MaxQueueSize tp = MaxQueueSize (provider_config p)"
      by (simp_all only: tp_def TracerProvider.simps)
    from 1 2 that(2) show ?thesis by blast
  qed
qed

lemma NewProvider_traced:
  assumes "NewProvider ext config st = (Inr p, st')" and "EnableTracing config"
  shows "\<exists>tp. tracerProvider p = Some tp \<and> otel_TracerProvider st' = Some tp
      \<and> tp_sampler tp =
          (if f64_ge (TraceRatio (SetDefaults (Getenv ext) config)) (Finite 1) then AlwaysSample
           else if f64_le (TraceRatio (SetDefaults (Getenv ext) config)) (Finite 0) then NeverSample
           else TraceIDRatioBased (TraceRatio (SetDefaults (Getenv ext) config)))"
proof (cases ext config st rule: NewProvider_cases)
  case (invalid err)
  with assms show ?thesis by simp
next
  case untraced
  with assms show ?thesis by simp
next
  case (setup_failed e p1 st1)
  with assms show ?thesis by simp
next
  case (traced p1 st1)
  let ?p0 = "\<lparr>tracerProvider = None, provider_config = SetDefaults (Getenv ext) config,
               tracer = None\<rparr>"
  show ?thesis
  proof (cases ext ?p0 st rule: setupTracing_cases)
    case (failed e)
    with traced show ?thesis by simp
  next
    case (ok tp)
    with traced assms(1) have "p = (?p0\<lparr>tracerProvider := Some tp\<rparr>)
          \<lparr>tracer := Some (GetTracer (?p0\<lparr>tracerProvider := Some tp\<rparr>)
                             (ServiceName (SetDefaults (Getenv ext) config)))\<rparr>"
      and "st' = setupPropagation (st\<lparr>otel_TracerProvider := Some tp\<rparr>)"
      by simp_all
    with ok(2) show ?thesis by (simp add: setupPropagation_def)
  qed
qed

lemma NewProvider_untraced:
  assumes "NewProvider ext config st = (Inr p, st')" and "\<not> EnableTracing config"
  shows "tracerProvider p = None \<and> otel_TracerProvider st' = otel_TracerProvider st"
proof (cases ext config st rule: NewProvider_cases)
  case untraced
  with assms show ?thesis by (auto simp add: setupPropagation_def)
qed (use assms in simp_all)

lemma NewProvider_config:
  assumes "NewProvider ext config st = (Inr p, st')"
  shows "provider_config p = SetDefaults (Getenv ext) config"
    and "Validate (SetDefaults (Getenv ext) config) = None"
proof -
  let ?p0 = "\<lparr>tracerProvider = None, provider_config = SetDefaults (Getenv ext) config,
               tracer = None\<rparr>"
  have "provider_config p = SetDefaults (Getenv ext) config
      \<and> Validate (SetDefaults (Getenv ext) config) = None"
  proof (cases ext config st rule: NewProvider_cases)
    case (traced p1 st1)
    show ?thesis
    proof (cases ext ?p0 st rule: setupTracing_cases)
      case (failed e)
      with traced show ?thesis by simp
    next
      case (ok tp)
      with traced assms show ?thesis by auto
    qed
  qed (use assms in auto)
  then show "provider_config p = SetDefaults (Getenv ext) config"
    and "Validate (SetDefaults (Getenv ext) config) = None" by simp_all
qed

lemma NewProvider_globalProvider:
  "globalProvider (snd (NewProvider ext config st)) = globalProvider st"
proof -
  let ?p0 = "\<lparr>tracerProvider = None, provider_config = SetDefaults (Getenv ext) config,
               tracer = None\<rparr>"
  show ?thesis
  proof (cases ext config st rule: NewProvider_cases)
    case (setup_failed e p1 st1)
    then show ?thesis
      by (cases ext ?p0 st rule: setupTracing_cases) (simp_all add: setupPropagation_def)
  next
    case (traced p1 st1)
    then show ?thesis
      by (cases ext ?p0 st rule: setupTracing_cases) (auto simp add: setupPropagation_def)
  qed (simp_all add: setupPropagation_def)
qed

section \<open>Which configurations provider construction accepts\<close>

lemma default_steps_ProjectID [simp]:
  "ProjectID (default_ServiceName c) = ProjectID c"
  "ProjectID (default_ServiceVersion c) = ProjectID c"
  "ProjectID (default_Environment g c) = ProjectID c"
  "ProjectID (default_TraceRatio c) = ProjectID c"
  "ProjectID c \<noteq> [] \<Longrightarrow> ProjectID (default_ProjectID g c) = ProjectID c"
  "ProjectID (default_ExportTimeout c) = ProjectID c"
  "ProjectID (default_BatchTimeout c) = ProjectID c"
  "ProjectID (default_MaxBatchSize c) = ProjectID c"
  "ProjectID (default_MaxQueueSize c) = ProjectID c"
  "ProjectID (default_Attributes c) = ProjectID c"
  by (simp_all add: default_steps_defs Let_def)

lemma SetDefaults_ProjectID:
  "ProjectID c \<noteq> [] \<Longrightarrow> ProjectID (SetDefaults g c) = ProjectID c"
  by (simp add: SetDefaults_def Let_def)

lemma SetDefaults_ServiceName:
  "ServiceName c \<noteq> [] \<Longrightarrow> ServiceName (SetDefaults g c) = ServiceName c"
  by (simp add: SetDefaults_def Let_def default_ServiceName_def)

lemma Validate_SetDefaults_ok:
  assumes "EnableTracing c \<longrightarrow> ProjectID c \<noteq> []"
    and "\<not> f64_less (TraceRatio c) (Finite 0)" and "\<not> f64_less (Finite 1) (TraceRatio c)"
    and "0 \<le> MaxBatchSize c" and "0 \<le> MaxQueueSize c"
  shows "Validate (SetDefaults g c) = None"
  using assms
  by (auto simp add: Validate_def SetDefaults_fields SetDefaults_ProjectID f64_0_1_def)

lemma Validate_None_sizes:
  "Validate c = None \<Longrightarrow> 0 < MaxBatchSize c \<and> 0 < MaxQueueSize c"
  by (simp add: Validate_def split: if_splits)

lemma f64_le_in_range:
  "f64_le (Finite 0) x \<Longrightarrow> \<not> f64_less x (Finite 0)"
  "f64_le x (Finite 1) \<Longrightarrow> \<not> f64_less (Finite 1) x"
proof -
  show "f64_le (Finite 0) x \<Longrightarrow> \<not> f64_less x (Finite 0)"
    by (cases x) (auto simp add: f64_le_def)
  show "f64_le x (Finite 1) \<Longrightarrow> \<not> f64_less (Finite 1) x"
    by (cases x) (auto simp add: f64_le_def)
qed

lemma NewProvider_untraced_ok:
  assumes "\<not> EnableTracing config" and "Validate (SetDefaults (Getenv ext) config) = None"
  shows "NewProvider ext config st =
     (Inr \<lparr>tracerProvider = None, provider_config = SetDefaults (Getenv ext) config,
           tracer = Some \<lparr>tracer_name = ServiceName (SetDefaults (Getenv ext) config),
                          tracer_provider = None\<rparr>\<rparr>,
      setupPropagation st)"
  using assms
  by (cases ext config st rule: NewProvider_cases) (simp_all add: GetTracer_def)

text \<open>
  C9 (amended).  \<open>NewProvider\<close> fails with a validation error, and leaves the package
  state as it was, for every configuration with a negative batch size, a negative queue
  size, or a sampling ratio below 0 or above 1.  A batch size or queue size of zero is
  the unset value, because \<open>NewProvider\<close> applies the defaults before it validates: a
  configuration with batch and queue size at least 0 and a ratio within 0 and 1 (and a
  project when tracing is enabled) never fails validation and is accepted when tracing
  is disabled, and every provider that \<open>NewProvider\<close> returns carries 512 and 2048 in
  place of a zero batch and queue size, so that both sizes are positive.
\<close>

theorem C9_invalid_config_rejected_zero_defaulted:
  "(MaxBatchSize config < 0 \<or> MaxQueueSize config < 0
      \<or> f64_less (TraceRatio config) (Finite 0) \<or> f64_less (Finite 1) (TraceRatio config)
    \<longrightarrow> (\<exists>err. NewProvider ext config st
                 = (Inl (Errorf ''invalid telemetry config: %w'' [err]), st)))
 \<and> (0 \<le> MaxBatchSize config \<and> 0 \<le> MaxQueueSize config
      \<and> f64_le (Finite 0) (TraceRatio config) \<and> f64_le (TraceRatio config) (Finite 1)
      \<and> (EnableTracing config \<longrightarrow> ProjectID config \<noteq> [])
    \<longrightarrow> (\<forall>err st1. NewProvider ext config st
                 \<noteq> (Inl (Errorf ''invalid telemetry config: %w'' [err]), st1))
        \<and> (\<not> EnableTracing config \<longrightarrow> \<not> isl (fst (NewProvider ext config st))))
 \<and> (NewProvider ext config st = (Inr p, st')
    \<longrightarrow> MaxBatchSize (provider_config p)
          = (if MaxBatchSize config = 0 then 512 else MaxBatchSize config)
        \<and> MaxQueueSize (provider_config p)
          = (if MaxQueueSize config = 0 then 2048 else MaxQueueSize config)
        \<and> 0 < MaxBatchSize (provider_config p) \<and> 0 < MaxQueueSize (provider_config p))"
proof -
  let ?c = "SetDefaults (Getenv ext) config"
  have 1: "\<exists>err. NewProvider ext config st
                 = (Inl (Errorf ''invalid telemetry config: %w'' [err]), st)"
    if a: "MaxBatchSize config < 0 \<or> MaxQueueSize config < 0
      \<or> f64_less (TraceRatio config) (Finite 0) \<or> f64_less (Finite 1) (TraceRatio config)"
  proof -
    from a have "f64_less (TraceRatio ?c) (Finite 0) \<or> f64_less (Finite 1) (TraceRatio ?c)
       \<or> MaxBatchSize ?c \<le> 0 \<or> MaxQueueSize ?c \<le> 0"
      using f64_less_0_cases [of "TraceRatio config"] f64_gt_1_cases [of "TraceRatio config"]
      by (auto simp add: SetDefaults_fields)
    from Validate_rejects [OF this] obtain err where "Validate ?c = Some err" by blast
    from NewProvider_invalid [OF this] show ?thesis by blast
  qed
  have 2: "(\<forall>err st1. NewProvider ext config st
                 \<noteq> (Inl (Errorf ''invalid telemetry config: %w'' [err]), st1))
        \<and> (\<not> EnableTracing config \<longrightarrow> \<not> isl (fst (NewProvider ext config st)))"
    if a: "0 \<le> MaxBatchSize config \<and> 0 \<le> MaxQueueSize config
      \<and> f64_le (Finite 0) (TraceRatio config) \<and> f64_le (TraceRatio config) (Finite 1)
      \<and> (EnableTracing config \<longrightarrow> ProjectID config \<noteq> [])"
  proof -
    from a have v: "Validate ?c = None"
      by (intro Validate_SetDefaults_ok) (simp_all add: f64_le_in_range)
    show ?thesis
    proof (cases ext config st rule: NewProvider_cases)
      case (invalid err)
      with v show ?thesis by simp
    next
      case untraced
      then show ?thesis by simp
    next
      case (setup_failed e p1 st1)
      then show ?thesis by simp
    next
      case (traced p1 st1)
      then show ?thesis by simp
    qed
  qed
  have 3: "MaxBatchSize (provider_config p)
          = (if MaxBatchSize config = 0 then 512 else MaxBatchSize config)
        \<and> MaxQueueSize (provider_config p)
          = (if MaxQueueSize config = 0 then 2048 else MaxQueueSize config)
        \<and> 0 < MaxBatchSize (provider_config p) \<and> 0 < MaxQueueSize (provider_config p)"
    if a: "NewProvider ext config st = (Inr p, st')"
  proof -
    from NewProvider_config [OF a] have c: "provider_config p = ?c" and v: "Validate ?c = None"
      by simp_all
    from Validate_None_sizes [OF v] show ?thesis
      unfolding c by (simp only: SetDefaults_fields simp_thms)
  qed
  from 1 2 3 show ?thesis by blast
qed

text \<open>
  C9, at batch size -1, queue size -1, ratio -0.1 and ratio 1.5, which are rejected, and
  at batch size 0 and queue size 0 with ratio 0.5 and tracing disabled, which is accepted
  with 512 and 2048.
\<close>

theorem C9_rejected_configs:
  "MaxBatchSize (half_config\<lparr>MaxBatchSize := - 1\<rparr>) < 0
 \<and> (\<exists>err. NewProvider ext0 (half_config\<lparr>MaxBatchSize := - 1\<rparr>) tstate0
        = (Inl (Errorf ''invalid telemetry config: %w'' [err]), tstate0))
 \<and> MaxQueueSize (half_config\<lparr>MaxQueueSize := - 1\<rparr>) < 0
 \<and> (\<exists>err. NewProvider ext0 (half_config\<lparr>MaxQueueSize := - 1\<rparr>) tstate0
        = (Inl (Errorf ''invalid telemetry config: %w'' [err]), tstate0))
 \<and> f64_less (TraceRatio (half_config\<lparr>TraceRatio := Finite (- 1 / 10)\<rparr>)) (Finite 0)
 \<and> (\<exists>err. NewProvider ext0 (half_config\<lparr>TraceRatio := Finite (- 1 / 10)\<rparr>) tstate0
        = (Inl (Errorf ''invalid telemetry config: %w'' [err]), tstate0))
 \<and> f64_less (Finite 1) (TraceRatio (half_config\<lparr>TraceRatio := Finite (3 / 2)\<rparr>))
 \<and> (\<exists>err. NewProvider ext0 (half_config\<lparr>TraceRatio := Finite (3 / 2)\<rparr>) tstate0
        = (Inl (Errorf ''invalid telemetry config: %w'' [err]), tstate0))
 \<and> 0 \<le> MaxBatchSize half_config \<and> 0 \<le> MaxQueueSize half_config
 \<and> f64_le (Finite 0) (TraceRatio half_config) \<and> f64_le (TraceRatio half_config) (Finite 1)
 \<and> \<not> EnableTracing half_config
 \<and> \<not> isl (fst (NewProvider ext0 half_config tstate0))
 \<and> MaxBatchSize (provider_config (projr (fst (NewProvider ext0 half_config tstate0)))) = 512
 \<and> MaxQueueSize (provider_config (projr (fst (NewProvider ext0 half_config tstate0)))) = 2048"
proof -
  have rej: "MaxBatchSize (half_config\<lparr>MaxBatchSize := - 1\<rparr>) < 0
   \<and> (\<exists>err. NewProvider ext0 (half_config\<lparr>MaxBatchSize := - 1\<rparr>) tstate0
        = (Inl (Errorf ''invalid telemetry config: %w'' [err]), tstate0))
   \<and> MaxQueueSize (half_config\<lparr>MaxQueueSize := - 1\<rparr>) < 0
   \<and> (\<exists>err. NewProvider ext0 (half_config\<lparr>MaxQueueSize := - 1\<rparr>) tstate0
        = (Inl (Errorf ''invalid telemetry config: %w'' [err]), tstate0))
   \<and> f64_less (TraceRatio (half_config\<lparr>TraceRatio := Finite (- 1 / 10)\<rparr>)) (Finite 0)
   \<and> (\<exists>err. NewProvider ext0 (half_config\<lparr>TraceRatio := Finite (- 1 / 10)\<rparr>) tstate0
        = (Inl (Errorf ''invalid telemetry config: %w'' [err]), tstate0))
   \<and> f64_less (Finite 1) (TraceRatio (half_config\<lparr>TraceRatio := Finite (3 / 2)\<rparr>))
   \<and> (\<exists>err. NewProvider ext0 (half_config\<lparr>TraceRatio := Finite (3 / 2)\<rparr>) tstate0
        = (Inl (Errorf ''invalid telemetry config: %w'' [err]), tstate0))"
    using C9_invalid_config_rejected_zero_defaulted
            [of "half_config\<lparr>MaxBatchSize := - 1\<rparr>" ext0 tstate0]
          C9_invalid_config_rejected_zero_defaulted
            [of "half_config\<lparr>MaxQueueSize := - 1\<rparr>" ext0 tstate0]
          C9_invalid_config_rejected_zero_defaulted
            [of "half_config\<lparr>TraceRatio := Finite (- 1 / 10)\<rparr>" ext0 tstate0]
          C9_invalid_config_rejected_zero_defaulted
            [of "half_config\<lparr>TraceRatio := Finite (3 / 2)\<rparr>" ext0 tstate0]
    by (simp add: half_config_def test_config_def)
  have h: "0 \<le> MaxBatchSize half_config" "0 \<le> MaxQueueSize half_config"
    "f64_le (Finite 0) (TraceRatio half_config)" "f64_le (TraceRatio half_config) (Finite 1)"
    "\<not> EnableTracing half_config" "MaxBatchSize half_config = 0" "MaxQueueSize half_config = 0"
    by (simp_all add: half_config_def test_config_def f64_le_def)
  obtain res st1 where eq: "NewProvider ext0 half_config tstate0 = (res, st1)"
    by (cases "NewProvider ext0 half_config tstate0") auto
  from C9_invalid_config_rejected_zero_defaulted [of half_config ext0 tstate0] h
  have acc: "\<not> isl (fst (NewProvider ext0 half_config tstate0))" by simp
  with eq obtain p where r: "res = Inr p" by (cases res) simp_all
  from C9_invalid_config_rejected_zero_defaulted [of half_config ext0 tstate0 p st1] eq r h
  have "MaxBatchSize (provider_config p) = 512 \<and> MaxQueueSize (provider_config p) = 2048"
    by simp
  with eq r have sz:
    "MaxBatchSize (provider_config (projr (fst (NewProvider ext0 half_config tstate0)))) = 512"
    "MaxQueueSize (provider_config (projr (fst (NewProvider ext0 half_config tstate0)))) = 2048"
    by simp_all
  from rej h(1-5) acc sz show ?thesis by blast
qed

text \<open>
  C9 as stated fails twice.  At batch size 0 and queue size 0 the configuration is
  accepted and the provider carries the defaults 512 and 2048.  A ratio that is not a
  number lies outside 0 and 1, yet both comparisons of \<open>Validate\<close> are false for it and
  the configuration is accepted.
\<close>

theorem C9_zero_sizes_accepted:
  "MaxBatchSize half_config \<le> 0 \<and> MaxQueueSize half_config \<le> 0
 \<and> \<not> isl (fst (NewProvider ext0 half_config tstate0))
 \<and> MaxBatchSize (provider_config (projr (fst (NewProvider ext0 half_config tstate0)))) = 512
 \<and> MaxQueueSize (provider_config (projr (fst (NewProvider ext0 half_config tstate0)))) = 2048
 \<and> TraceRatio nan_config = NaN
 \<and> \<not> f64_le (Finite 0) (TraceRatio nan_config)
 \<and> \<not> f64_le (TraceRatio nan_config) (Finite 1)
 \<and> \<not> isl (fst (NewProvider ext0 nan_config tstate0))
 \<and> TraceRatio (provider_config (projr (fst (NewProvider ext0 nan_config tstate0)))) = NaN"
proof -
  have v: "Validate (SetDefaults (Getenv ext0) half_config) = None"
    "Validate (SetDefaults (Getenv ext0) nan_config) = None"
    by (rule Validate_SetDefaults_ok; simp add: half_config_def nan_config_def test_config_def)+
  have e: "\<not> EnableTracing half_config" "\<not> EnableTracing nan_config"
    by (simp_all add: half_config_def nan_config_def test_config_def)
  have f: "MaxBatchSize half_config = 0" "MaxQueueSize half_config = 0"
    "TraceRatio nan_config = NaN"
    by (simp_all add: half_config_def nan_config_def test_config_def)
  show ?thesis
    by (simp add: NewProvider_untraced_ok [OF e(1) v(1)] NewProvider_untraced_ok [OF e(2) v(2)]
        SetDefaults_fields f f64_le_def)
qed

lemma f64_eq_1: "f64_eq x (Finite 1) \<Longrightarrow> x = Finite 1"
  by (cases x) simp_all

section \<open>The sampler that provider construction installs\<close>

text \<open>
  C3 (amended).  For every configuration that \<open>NewProvider\<close> accepts with tracing enabled
  and sampling ratio equal to 1, the tracer provider of the new provider, which is also
  the one set globally, has the always-sample sampler.  With tracing disabled
  \<open>NewProvider\<close> builds no tracer provider and installs no sampler.
\<close>

theorem C3_sampler_for_ratio_one:
  "(NewProvider ext config st = (Inr p, st') \<and> EnableTracing config
      \<and> f64_eq (TraceRatio config) (Finite 1)
    \<longrightarrow> (\<exists>tp. tracerProvider p = Some tp \<and> tp_sampler tp = AlwaysSample
            \<and> otel_TracerProvider st' = Some tp))
 \<and> (NewProvider ext config st = (Inr p, st') \<and> \<not> EnableTracing config
    \<longrightarrow> tracerProvider p = None \<and> otel_TracerProvider st' = otel_TracerProvider st)"
proof -
  have 1: "\<exists>tp. tracerProvider p = Some tp \<and> tp_sampler tp = AlwaysSample
            \<and> otel_TracerProvider st' = Some tp"
    if a: "NewProvider ext config st = (Inr p, st')" "EnableTracing config"
      "f64_eq (TraceRatio config) (Finite 1)"
  proof -
    from a(3) have r: "TraceRatio (SetDefaults (Getenv ext) config) = Finite 1"
      using f64_eq_1 [of "TraceRatio config"] by (simp add: SetDefaults_fields)
    from NewProvider_traced [OF a(1,2)]
    show ?thesis by (auto simp add: r f64_ge_def f64_le_def)
  qed
  have 2: "tracerProvider p = None \<and> otel_TracerProvider st' = otel_TracerProvider st"
    if "NewProvider ext config st = (Inr p, st')" "\<not> EnableTracing config"
    using NewProvider_untraced [OF that] .
  from 1 2 show ?thesis by blast
qed

text \<open>
  What happens to a ratio of 0: \<open>SetDefaults\<close> replaces it by 0.1 before the sampler is
  chosen, and no configuration at all makes \<open>NewProvider\<close> install the never-sample
  sampler.
\<close>

lemma NewProvider_zero_ratio_is_defaulted:
  assumes "NewProvider ext config st = (Inr p, st')" and "EnableTracing config"
    and "f64_eq (TraceRatio config) (Finite 0)"
  shows "\<exists>tp. tracerProvider p = Some tp \<and> tp_sampler tp = TraceIDRatioBased f64_0_1"
proof -
  from assms(3) have r: "TraceRatio (SetDefaults (Getenv ext) config) = f64_0_1"
    by (simp add: SetDefaults_fields)
  from NewProvider_traced [OF assms(1,2)]
  show ?thesis by (auto simp add: r f64_ge_def f64_le_def f64_0_1_def)
qed

lemma NewProvider_never_installs_NeverSample:
  assumes "NewProvider ext config st = (Inr p, st')" and "tracerProvider p = Some tp"
  shows "tp_sampler tp \<noteq> NeverSample"
proof -
  let ?c = "SetDefaults (Getenv ext) config"
  from NewProvider_config [OF assms(1)] have v: "Validate ?c = None" by simp
  have en: "EnableTracing config"
    using NewProvider_untraced [OF assms(1)] assms(2) by auto
  have nz: "\<not> f64_eq (TraceRatio ?c) (Finite 0)"
    by (cases "TraceRatio config") (auto simp add: SetDefaults_fields f64_0_1_def)
  from v have nn: "\<not> f64_less (TraceRatio ?c) (Finite 0)"
    by (auto simp add: Validate_def split: if_splits)
  from NewProvider_traced [OF assms(1) en] assms(2) nz nn
  show ?thesis by (auto simp add: f64_le_def split: if_splits)
qed


text \<open>C3, at the test configuration with tracing enabled and ratio 1.\<close>

theorem C3_ratio_one_always_samples:
  "EnableTracing always_config \<and> f64_eq (TraceRatio always_config) (Finite 1)
 \<and> \<not> isl (fst (NewProvider ext0 always_config tstate0))
 \<and> map_option tp_sampler (tracerProvider (projr (fst (NewProvider ext0 always_config tstate0))))
     = Some AlwaysSample
 \<and> map_option tp_sampler (otel_TracerProvider (snd (NewProvider ext0 always_config tstate0)))
     = Some AlwaysSample"
proof -
  have ok: "\<not> isl (fst (NewProvider ext0 always_config tstate0))"
    by (simp add: NewProvider_def SetDefaults_def default_steps_defs Validate_def Let_def
        always_config_def test_config_def ext0_def no_env_def setupTracing_def
        createResource_def exporter_ok_def f64_ge_def f64_le_def)
  then obtain p st' where eq: "NewProvider ext0 always_config tstate0 = (Inr p, st')"
    by (cases "NewProvider ext0 always_config tstate0"; cases "fst (NewProvider ext0 always_config tstate0)")
       auto
  have hyp: "EnableTracing always_config" "f64_eq (TraceRatio always_config) (Finite 1)"
    by (simp_all add: always_config_def test_config_def)
  from C3_sampler_for_ratio_one [of ext0 always_config tstate0 p st'] eq hyp ok
  show ?thesis by auto
qed

text \<open>
  C3 as stated fails twice: with tracing enabled and ratio 0 the accepted configuration
  gets the trace-ID-ratio sampler with ratio 0.1, not the never-sample sampler; with
  tracing disabled and ratio 1 no tracer provider and no sampler exist at all.
\<close>

theorem C3_ratio_zero_gets_ratio_sampler:
  "EnableTracing tracing_config \<and> f64_eq (TraceRatio tracing_config) (Finite 0)
 \<and> \<not> isl (fst (NewProvider ext0 tracing_config tstate0))
 \<and> map_option tp_sampler (tracerProvider (projr (fst (NewProvider ext0 tracing_config tstate0))))
     = Some (TraceIDRatioBased f64_0_1)
 \<and> f64_eq (TraceRatio untraced_config) (Finite 1)
 \<and> \<not> isl (fst (NewProvider ext0 untraced_config tstate0))
 \<and> tracerProvider (projr (fst (NewProvider ext0 untraced_config tstate0))) = None
 \<and> otel_TracerProvider (snd (NewProvider ext0 untraced_config tstate0)) = None"
  by (simp add: NewProvider_def SetDefaults_def default_steps_defs Validate_def Let_def
      tracing_config_def untraced_config_def test_config_def ext0_def no_env_def
      setupTracing_def createResource_def exporter_ok_def f64_ge_def f64_le_def f64_0_1_def
      setupPropagation_def tstate0_def GetTracer_def)

section \<open>The package-level telemetry provider\<close>

lemma InitGlobal_cases:
  "(\<exists>err st1. NewProvider ext config st = (Inl err, st1)
       \<and> InitGlobal ext config st = (Some err, st1))
 \<or> (\<exists>p st1. NewProvider ext config st = (Inr p, st1)
       \<and> InitGlobal ext config st = (None, st1\<lparr>globalProvider := Some p\<rparr>))"
proof (cases "NewProvider ext config st")
  case (Pair r st1)
  then show ?thesis by (cases r) (simp_all add: InitGlobal_def)
qed

text \<open>
  C4 (amended).  Every successful call of \<open>telemetry.InitGlobal\<close> sets the global provider
  to the provider it has just built from its own configuration, whatever the global
  provider was before (the last successful call wins); a failing call leaves the global
  provider as it was.
\<close>

theorem C4_InitGlobal_last_success_wins:
  "(fst (InitGlobal ext config st) = None \<longrightarrow>
      (\<exists>p. globalProvider (snd (InitGlobal ext config st)) = Some p
         \<and> fst (NewProvider ext config st) = Inr p
         \<and> provider_config p = SetDefaults (Getenv ext) config))
 \<and> (fst (InitGlobal ext config st) \<noteq> None \<longrightarrow>
      globalProvider (snd (InitGlobal ext config st)) = globalProvider st)"
proof -
  from InitGlobal_cases [of ext config st]
  show ?thesis
  proof (elim disjE exE conjE)
    fix err st1
    assume a: "NewProvider ext config st = (Inl err, st1)"
      and b: "InitGlobal ext config st = (Some err, st1)"
    from NewProvider_globalProvider [of ext config st] a
    have "globalProvider st1 = globalProvider st" by simp
    with b show ?thesis by simp
  next
    fix p st1
    assume a: "NewProvider ext config st = (Inr p, st1)"
      and b: "InitGlobal ext config st = (None, st1\<lparr>globalProvider := Some p\<rparr>)"
    from NewProvider_config(1) [OF a] a b show ?thesis by simp
  qed
qed

lemma InitGlobal_untraced_ok:
  assumes "\<not> EnableTracing config" and "Validate (SetDefaults (Getenv ext) config) = None"
  shows "InitGlobal ext config st =
     (None, (setupPropagation st)
        \<lparr>globalProvider :=
           Some \<lparr>tracerProvider = None, provider_config = SetDefaults (Getenv ext) config,
                 tracer = Some \<lparr>tracer_name = ServiceName (SetDefaults (Getenv ext) config),
                                tracer_provider = None\<rparr>\<rparr>\<rparr>)"
  by (simp add: InitGlobal_def NewProvider_untraced_ok [OF assms])

lemma test_configs_valid:
  "Validate (SetDefaults (Getenv ext0) test_config) = None"
  "Validate (SetDefaults (Getenv ext0) other_config) = None"
  "\<not> EnableTracing test_config" "\<not> EnableTracing other_config"
  by (simp_all add: Validate_SetDefaults_ok other_config_def test_config_def)

text \<open>C4, at a second call with another project, after a first successful call.\<close>

theorem C4_second_init_replaces:
  "fst (InitGlobal ext0 other_config after_first_init) = None
 \<and> (\<exists>p. globalProvider after_second_init = Some p
        \<and> provider_config p = SetDefaults (Getenv ext0) other_config)
 \<and> GetGlobalProjectID after_second_init = ''test-project-123''"
proof -
  have ok: "fst (InitGlobal ext0 other_config after_first_init) = None"
    by (simp add: InitGlobal_untraced_ok test_configs_valid)
  from C4_InitGlobal_last_success_wins [of ext0 other_config after_first_init] ok
  obtain p where p: "globalProvider after_second_init = Some p"
      "provider_config p = SetDefaults (Getenv ext0) other_config"
    by (auto simp add: after_second_init_def)
  then have "GetGlobalProjectID after_second_init = ''test-project-123''"
    by (simp add: GetGlobalProjectID_def GetProjectID_def SetDefaults_ProjectID
        other_config_def test_config_def)
  with ok p show ?thesis by blast
qed

text \<open>
  C4 as stated fails: after a successful \<open>InitGlobal\<close>, a second \<open>InitGlobal\<close> with
  another project succeeds and replaces the global provider, as the repository's test of
  \<open>GetGlobalProjectID\<close> expects.
\<close>

theorem C4_global_provider_changes:
  "fst (InitGlobal ext0 test_config tstate0) = None
 \<and> fst (InitGlobal ext0 other_config after_first_init) = None
 \<and> GetGlobalProjectID after_first_init = ''test-project''
 \<and> GetGlobalProjectID after_second_init = ''test-project-123''
 \<and> telemetry_Global after_second_init \<noteq> telemetry_Global after_first_init"
proof -
  have 1: "ProjectID (SetDefaults (Getenv ext0) test_config) = ''test-project''"
    by (simp add: SetDefaults_ProjectID test_config_def)
  have 2: "ProjectID (SetDefaults (Getenv ext0) other_config) = ''test-project-123''"
    by (simp add: SetDefaults_ProjectID other_config_def test_config_def)
  have 3: "GetGlobalProjectID after_first_init = ''test-project''"
    by (simp add: after_first_init_def InitGlobal_untraced_ok test_configs_valid
        GetGlobalProjectID_def GetProjectID_def 1)
  have 4: "GetGlobalProjectID after_second_init = ''test-project-123''"
    by (simp add: after_second_init_def InitGlobal_untraced_ok test_configs_valid
        GetGlobalProjectID_def GetProjectID_def 2)
  from 3 4 have 5: "telemetry_Global after_second_init \<noteq> telemetry_Global after_first_init"
    by (auto simp add: GetGlobalProjectID_def telemetry_Global_def)
  have 6: "fst (InitGlobal ext0 test_config tstate0) = None"
    "fst (InitGlobal ext0 other_config after_first_init) = None"
    by (simp_all add: InitGlobal_untraced_ok test_configs_valid)
  from 3 4 5 6 show ?thesis by blast
qed

text \<open>The logger's \<open>InitGlobal\<close>, in contrast, runs once.\<close>

lemma log_InitGlobal_first_call_wins:
  "once_done s \<Longrightarrow> log_InitGlobal config s = (None, s)"
  "once_done (snd (log_InitGlobal config s))"
  by (simp_all add: log_InitGlobal_def split: sum.splits)

section \<open>Shutdown of the client\<close>

lemma events_slog_Log [simp]: "events (slog_Log ctx lvl msg args s) = events s"
  by (simp add: slog_Log_def)

lemma events_InfoContext [simp]: "events (InfoContext l ctx msg args s) = events s"
  by (simp add: InfoContext_def Let_def)

lemma events_ErrorContext [simp]: "events (ErrorContext l ctx msg args s) = events s"
  by (simp add: ErrorContext_def Let_def)

lemma slog_ErrorContext:
  "slog_calls (ErrorContext l ctx msg args s) =
   slog_calls s @ [\<lparr>rec_trace = ctx_gcp_trace (enrichContext l ctx), rec_level = LevelError,
                     rec_msg = msg,
                     rec_args = addTraceContext ctx (log_ProjectID (logger_config l)) args\<rparr>]"
  by (simp add: ErrorContext_def slog_Log_def Let_def)

lemma Provider_Shutdown_fst:
  "fst (Provider_Shutdown ext p s) = fst (Provider_Shutdown ext p s')"
  by (simp add: Provider_Shutdown_def split: option.splits)

lemma Provider_Shutdown_events:
  "fst (Provider_Shutdown ext p s) = Some err \<Longrightarrow>
   events (snd (Provider_Shutdown ext p s)) = events s @ [TelemetryShutdown]"
  by (simp add: Provider_Shutdown_def split: option.splits)

lemma Shutdown_logger_result:
  "fst (Shutdown_logger c s) = None"
  "events (snd (Shutdown_logger c s)) = events s @ [LoggerClose]"
  by (simp_all add: Shutdown_logger_def Close_def)

text \<open>
  C5 (amended).  When the shutdown of the telemetry provider fails, \<open>Client.Shutdown\<close>
  logs the failure at Error level and returns that error, wrapped, at once: the only
  collaborator reached is the tracer provider, and the logger is not closed.  When there
  is no telemetry provider or its shutdown succeeds, the logger is closed last and the
  result is nil.  In both cases the error returned is the first one met.
\<close>

theorem C5_Shutdown_stops_at_telemetry_failure:
  "(client_telemetry c = Some p \<and> fst (Provider_Shutdown ext p w) = Some err \<longrightarrow>
      fst (Client_Shutdown ext c ctx s) = Some (Errorf ''failed to shutdown telemetry: %w'' [err])
      \<and> events (snd (Client_Shutdown ext c ctx s)) = events s @ [TelemetryShutdown]
      \<and> rec_level (last (slog_calls (snd (Client_Shutdown ext c ctx s)))) = LevelError
      \<and> rec_msg (last (slog_calls (snd (Client_Shutdown ext c ctx s))))
          = ''Failed to shutdown telemetry'')
 \<and> (client_telemetry c = None
      \<or> (client_telemetry c = Some p \<and> fst (Provider_Shutdown ext p w) = None) \<longrightarrow>
      fst (Client_Shutdown ext c ctx s) = None
      \<and> last (events (snd (Client_Shutdown ext c ctx s))) = LoggerClose)"
proof -
  let ?s1 = "InfoContext (client_logger c) ctx ''Shutting down middleware client'' [] s"
  obtain r s2 where ps: "Provider_Shutdown ext p ?s1 = (r, s2)"
    by (cases "Provider_Shutdown ext p ?s1") auto
  have r: "r = fst (Provider_Shutdown ext p w)"
    using Provider_Shutdown_fst [of ext p ?s1 w] ps by simp
  have 1: "fst (Client_Shutdown ext c ctx s) = Some (Errorf ''failed to shutdown telemetry: %w'' [err])
      \<and> events (snd (Client_Shutdown ext c ctx s)) = events s @ [TelemetryShutdown]
      \<and> rec_level (last (slog_calls (snd (Client_Shutdown ext c ctx s)))) = LevelError
      \<and> rec_msg (last (slog_calls (snd (Client_Shutdown ext c ctx s))))
          = ''Failed to shutdown telemetry''"
    if a: "client_telemetry c = Some p" "fst (Provider_Shutdown ext p w) = Some err"
  proof -
    from a r have re: "r = Some err" by simp
    from Provider_Shutdown_events [of ext p ?s1 err] ps re
    have ev: "events s2 = events s @ [TelemetryShutdown]" by simp
    from a(1) ps re ev show ?thesis
      by (simp add: Client_Shutdown_def Let_def slog_ErrorContext)
  qed
  have 2: "fst (Client_Shutdown ext c ctx s) = None
      \<and> last (events (snd (Client_Shutdown ext c ctx s))) = LoggerClose"
    if a: "client_telemetry c = None
      \<or> (client_telemetry c = Some p \<and> fst (Provider_Shutdown ext p w) = None)"
    using a r ps by (auto simp add: Client_Shutdown_def Let_def Shutdown_logger_result)
  from 1 2 show ?thesis by blast
qed

lemma test_client_telemetry:
  "client_telemetry test_client
     = Some \<lparr>tracerProvider = Some test_tracerProvider, provider_config = test_config,
             tracer = None\<rparr>"
  by (simp add: test_client_def)

text \<open>C5, at a client whose tracer provider fails to flush, and at one that flushes.\<close>

theorem C5_shutdown_runs:
  "fst (Provider_Shutdown ext_flush_fails
         \<lparr>tracerProvider = Some test_tracerProvider, provider_config = test_config, tracer = None\<rparr>
         world0) = Some (Errorf ''context deadline exceeded'' [])
 \<and> fst (Client_Shutdown ext_flush_fails test_client Background world0)
     = Some (Errorf ''failed to shutdown telemetry: %w'' [Errorf ''context deadline exceeded'' []])
 \<and> events (snd (Client_Shutdown ext_flush_fails test_client Background world0))
     = [TelemetryShutdown]
 \<and> fst (Provider_Shutdown ext0
         \<lparr>tracerProvider = Some test_tracerProvider, provider_config = test_config, tracer = None\<rparr>
         world0) = None
 \<and> fst (Client_Shutdown ext0 test_client Background world0) = None
 \<and> last (events (snd (Client_Shutdown ext0 test_client Background world0))) = LoggerClose"
proof -
  let ?p = "\<lparr>tracerProvider = Some test_tracerProvider, provider_config = test_config,
             tracer = None\<rparr>"
  have a: "fst (Provider_Shutdown ext_flush_fails ?p world0)
      = Some (Errorf ''context deadline exceeded'' [])"
    by (simp add: Provider_Shutdown_def ext_flush_fails_def shutdown_fails_def)
  have b: "fst (Provider_Shutdown ext0 ?p world0) = None"
    by (simp add: Provider_Shutdown_def ext0_def shutdown_ok_def)
  have e: "events world0 = []" by (simp add: world0_def)
  from C5_Shutdown_stops_at_telemetry_failure [of test_client ?p ext_flush_fails world0
      "Errorf ''context deadline exceeded'' []" Background world0]
    C5_Shutdown_stops_at_telemetry_failure [of test_client ?p ext0 world0 _ Background world0]
    a b e test_client_telemetry
  show ?thesis by simp
qed

text \<open>
  C5 as stated fails: with a telemetry shutdown that fails, the shutdown of the tracer
  provider is the only step attempted and the logger is never closed.
\<close>

theorem C5_logger_not_closed:
  "fst (Client_Shutdown ext_flush_fails test_client Background world0)
     = Some (Errorf ''failed to shutdown telemetry: %w'' [Errorf ''context deadline exceeded'' []])
 \<and> events (snd (Client_Shutdown ext_flush_fails test_client Background world0))
     = [TelemetryShutdown]
 \<and> LoggerClose \<notin> set (events (snd (Client_Shutdown ext_flush_fails test_client Background world0)))"
  by (simp add: Client_Shutdown_def Provider_Shutdown_def test_client_def ext_flush_fails_def
      shutdown_fails_def Let_def world0_def)

end
